theory Spec2Isabelle
  imports Complex_Main
begin

section \<open>The agent controller: data model\<close>

text \<open>
  The agent controller (\<^verbatim>\<open>src/api/agent_controller.py\<close>) keeps every agent document in a
  key/value store and works on the decoded JSON values with Python's dynamic operations.
  A JSON value is what \<^verbatim>\<open>json.loads\<close> returns: \<^verbatim>\<open>None\<close>, a bool, an int, a float, a
  string, a list or a dict with string keys. A Python dict is kept as an association
  list in insertion order; lookup takes the first entry of a key and assignment replaces
  it in place or appends a new key at the end, as a dict does.
\<close>

datatype json =
    JNull
  | JBool bool
  | JInt int
  | JFloat rat
  | JStr string
  | JList "json list"
  | JObj "(string \<times> json) list"

type_synonym dict = "(string \<times> json) list"

text \<open>\<^verbatim>\<open>d[k] = v\<close> on a dict, and on the store (\<^verbatim>\<open>r.set(k, v)\<close>).\<close>

primrec dict_set :: "'k \<Rightarrow> 'v \<Rightarrow> ('k \<times> 'v) list \<Rightarrow> ('k \<times> 'v) list" where
  "dict_set k v [] = [(k, v)]"
| "dict_set k v (p # ps) = (if fst p = k then (k, v) # ps else p # dict_set k v ps)"

text \<open>\<^verbatim>\<open>d.update(u)\<close>: the entries of \<open>u\<close> are assigned in order.\<close>

definition dict_update :: "('k \<times> 'v) list \<Rightarrow> ('k \<times> 'v) list \<Rightarrow> ('k \<times> 'v) list" where
  "dict_update d u = fold (\<lambda>(k, v). dict_set k v) u d"

text \<open>\<^verbatim>\<open>k in d\<close> on a dict.\<close>

definition dict_has :: "('k \<times> 'v) list \<Rightarrow> 'k \<Rightarrow> bool" where
  "dict_has d k = (map_of d k \<noteq> None)"

text \<open>
  The errors Python raises in the code paths modelled here. An exception that reaches
  FastAPI without being an \<^verbatim>\<open>HTTPException\<close> is answered with status 500.
\<close>

datatype py_error =
    TypeError | KeyError | AttributeError | ValueError | JSONDecodeError | UnicodeDecodeError
  | ValidationError

datatype http_error = HTTPException nat string | Unhandled py_error

text \<open>Python's truth value of a JSON value (\<^verbatim>\<open>if x\<close>, \<^verbatim>\<open>a or b\<close>).\<close>

fun truthy :: "json \<Rightarrow> bool" where
  "truthy JNull = False"
| "truthy (JBool b) = b"
| "truthy (JInt n) = (n \<noteq> 0)"
| "truthy (JFloat r) = (r \<noteq> 0)"
| "truthy (JStr s) = (s \<noteq> [])"
| "truthy (JList xs) = (xs \<noteq> [])"
| "truthy (JObj d) = (d \<noteq> [])"

text \<open>\<^verbatim>\<open>needle in s\<close> on strings: \<open>needle\<close> occurs as a contiguous part of \<open>s\<close>.\<close>

fun is_substring :: "string \<Rightarrow> string \<Rightarrow> bool" where
  "is_substring needle [] = (needle = [])"
| "is_substring needle (c # cs) = (take (length needle) (c # cs) = needle \<or> is_substring needle cs)"

text \<open>
  \<^verbatim>\<open>k in x\<close> for a string \<open>k\<close>: key membership on a dict, element membership on a list,
  substring test on a string, and a \<^verbatim>\<open>TypeError\<close> on every other value.
\<close>

fun py_in :: "string \<Rightarrow> json \<Rightarrow> py_error + bool" where
  "py_in k (JObj d) = Inr (dict_has d k)"
| "py_in k (JList xs) = Inr (JStr k \<in> set xs)"
| "py_in k (JStr s) = Inr (is_substring k s)"
| "py_in k _ = Inl TypeError"

text \<open>
  \<^verbatim>\<open>x[k]\<close> for a string \<open>k\<close>: a dict answers or raises \<^verbatim>\<open>KeyError\<close>; a list or a string
  wants an integer index, the remaining values are not subscriptable.
\<close>

fun py_getitem :: "json \<Rightarrow> string \<Rightarrow> py_error + json" where
  "py_getitem (JObj d) k = (case map_of d k of Some v \<Rightarrow> Inr v | None \<Rightarrow> Inl KeyError)"
| "py_getitem _ k = Inl TypeError"

text \<open>\<^verbatim>\<open>x[k] = v\<close> for a string \<open>k\<close>: only a dict accepts it.\<close>

fun py_setitem :: "json \<Rightarrow> string \<Rightarrow> json \<Rightarrow> py_error + json" where
  "py_setitem (JObj d) k v = Inr (JObj (dict_set k v d))"
| "py_setitem _ k v = Inl TypeError"

text \<open>\<^verbatim>\<open>x.get(k, default)\<close>: only a dict has the method.\<close>

fun py_get :: "json \<Rightarrow> string \<Rightarrow> json \<Rightarrow> py_error + json" where
  "py_get (JObj d) k dflt = Inr (case map_of d k of Some v \<Rightarrow> v | None \<Rightarrow> dflt)"
| "py_get _ k dflt = Inl AttributeError"

subsection \<open>The deep merge of \<^verbatim>\<open>inject_config\<close>\<close>

text \<open>
  \<^verbatim>\<open>
  def deep_update(d, u):
      for k, v in u.items():
          if isinstance(v, dict) and k in d and isinstance(d[k], dict):
              deep_update(d[k], v)
          else:
              d[k] = v
  \<close>
  The function mutates \<open>d\<close>; the model returns the dict \<open>d\<close> has become. The recursive
  call mutates the dict stored under \<open>k\<close>, which keeps its place in \<open>d\<close>.
\<close>

function deep_update :: "dict \<Rightarrow> dict \<Rightarrow> dict" where
  "deep_update d [] = d"
| "deep_update d ((k, v) # u) =
     deep_update
       (case v of
          JObj vd \<Rightarrow>
            (case map_of d k of
               Some (JObj dd) \<Rightarrow> dict_set k (JObj (deep_update dd vd)) d
             | _ \<Rightarrow> dict_set k v d)
        | _ \<Rightarrow> dict_set k v d)
       u"
  by pat_completeness auto
termination
  by (relation "measure (\<lambda>(d, u). size_list (size_prod (\<lambda>_. 0) size) u)") auto

text \<open>
  \<^verbatim>\<open>deep_update(agent_json["config"], update.config)\<close> is called on whatever value the
  registration holds under \<^verbatim>\<open>config\<close>. When that value is not a dict, an empty patch
  leaves the loop body unexecuted, and the first entry of a non-empty patch raises
  \<^verbatim>\<open>TypeError\<close> on \<^verbatim>\<open>k in d\<close>, on \<^verbatim>\<open>d[k]\<close> or on \<^verbatim>\<open>d[k] = v\<close>.
\<close>

fun deep_update_value :: "json \<Rightarrow> dict \<Rightarrow> py_error + json" where
  "deep_update_value (JObj d) u = Inr (JObj (deep_update d u))"
| "deep_update_value d u = (if u = [] then Inr d else Inl TypeError)"

section \<open>The store, the channels and the observers\<close>

text \<open>
  Redis holds byte strings. The code reads a stored value in one of three ways:
  \<^verbatim>\<open>json.loads\<close> (registration and metrics documents), \<^verbatim>\<open>.decode("utf-8")\<close> followed by a
  comparison with a bare word (state), and \<^verbatim>\<open>int\<close> (last signal). A stored value is kept
  in the form its reader sees: \<open>Doc j\<close> is JSON text in UTF-8 that \<^verbatim>\<open>json.loads\<close> decodes to
  \<open>j\<close>, in particular \<^verbatim>\<open>json.dumps(j)\<close>; \<open>Text s\<close> is the byte string \<open>s\<close>, one character a
  byte, where it is read as text, and stands for bytes that \<^verbatim>\<open>json.loads\<close> rejects where
  a document is expected.
  The kind of a key is fixed by its suffix, so every key has one reader.
\<close>

datatype blob = Text string | Doc json

type_synonym store = "(string \<times> blob) list"

text \<open>\<^verbatim>\<open>if data\<close> on a value returned by \<^verbatim>\<open>r.get\<close>: JSON text is never empty.\<close>

fun blob_truthy :: "blob \<Rightarrow> bool" where
  "blob_truthy (Text s) = (s \<noteq> [])"
| "blob_truthy (Doc j) = True"

fun json_loads :: "blob \<Rightarrow> py_error + json" where
  "json_loads (Doc j) = Inr j"
| "json_loads (Text s) = Inl JSONDecodeError"

text \<open>
  \<^verbatim>\<open>state_data.decode("utf-8")\<close> raises \<^verbatim>\<open>UnicodeDecodeError\<close> on bytes that are not
  well-formed UTF-8: a byte below 128 stands alone; a lead byte 194..223 takes one
  continuation byte (128..191), 224..239 two and 240..244 three, where the first
  continuation is narrowed after 224 (no overlong form), 237 (no surrogate), 240 (no
  overlong form) and 244 (nothing above U+10FFFF); every other byte is rejected.
\<close>

definition continuation :: "nat \<Rightarrow> bool" where
  "continuation b = (128 \<le> b \<and> b \<le> 191)"

fun utf8_valid :: "nat list \<Rightarrow> bool" where
  "utf8_valid [] = True"
| "utf8_valid (b # bs) =
     (if b < 128 then utf8_valid bs
      else if 194 \<le> b \<and> b \<le> 223 then
        (case bs of
           c1 # rest \<Rightarrow> continuation c1 \<and> utf8_valid rest
         | _ \<Rightarrow> False)
      else if 224 \<le> b \<and> b \<le> 239 then
        (case bs of
           c1 # c2 # rest \<Rightarrow>
             (if b = 224 then 160 \<le> c1 \<and> c1 \<le> 191
              else if b = 237 then 128 \<le> c1 \<and> c1 \<le> 159
              else continuation c1)
             \<and> continuation c2 \<and> utf8_valid rest
         | _ \<Rightarrow> False)
      else if 240 \<le> b \<and> b \<le> 244 then
        (case bs of
           c1 # c2 # c3 # rest \<Rightarrow>
             (if b = 240 then 144 \<le> c1 \<and> c1 \<le> 191
              else if b = 244 then 128 \<le> c1 \<and> c1 \<le> 143
              else continuation c1)
             \<and> continuation c2 \<and> continuation c3 \<and> utf8_valid rest
         | _ \<Rightarrow> False)
      else False)"

text \<open>
  \<^verbatim>\<open>state = state_data.decode("utf-8") if state_data else "unknown"\<close>. The state is
  only ever compared with the bare words \<^verbatim>\<open>paused\<close> and \<^verbatim>\<open>disabled\<close>, which are ASCII, so
  the decoded text is kept as the bytes it was decoded from. JSON text under a state key
  is UTF-8 and decodes to text that is none of the bare words; it is kept apart as
  \<open>None\<close>.
\<close>

fun raw_state :: "blob option \<Rightarrow> py_error + string option" where
  "raw_state None = Inr (Some ''unknown'')"
| "raw_state (Some (Text s)) =
     (if s = [] then Inr (Some ''unknown'')
      else if utf8_valid (map of_char s) then Inr (Some s)
      else Inl UnicodeDecodeError)"
| "raw_state (Some (Doc j)) = Inr None"

text \<open>
  \<^verbatim>\<open>int(b)\<close> on bytes: surrounding ASCII whitespace is dropped, one sign is allowed, and
  the digits may be grouped by single underscores.
\<close>

definition is_space :: "char \<Rightarrow> bool" where
  "is_space c = (c \<in> set [CHR '' '', CHR 0x09, CHR 0x0A, CHR 0x0B, CHR 0x0C, CHR 0x0D])"

definition strip :: "string \<Rightarrow> string" where
  "strip s = rev (dropWhile is_space (rev (dropWhile is_space s)))"

definition digit_value :: "char \<Rightarrow> int option" where
  "digit_value c =
     (let n = (of_char c :: nat) in if 48 \<le> n \<and> n \<le> 57 then Some (int n - 48) else None)"

fun parse_digits :: "int \<Rightarrow> bool \<Rightarrow> string \<Rightarrow> int option" where
  "parse_digits acc after_digit [] = (if after_digit then Some acc else None)"
| "parse_digits acc after_digit (c # cs) =
     (if c = CHR ''_'' then (if after_digit then parse_digits acc False cs else None)
      else (case digit_value c of
              Some d \<Rightarrow> parse_digits (acc * 10 + d) True cs
            | None \<Rightarrow> None))"

definition py_int :: "string \<Rightarrow> int option" where
  "py_int s =
     (case strip s of
        c # cs \<Rightarrow>
          (if c = CHR ''-'' then map_option uminus (parse_digits 0 False cs)
           else if c = CHR ''+'' then parse_digits 0 False cs
           else parse_digits 0 False (c # cs))
      | [] \<Rightarrow> None)"

fun int_of_blob :: "blob \<Rightarrow> py_error + int" where
  "int_of_blob (Text s) = (case py_int s of Some n \<Rightarrow> Inr n | None \<Rightarrow> Inl ValueError)"
| "int_of_blob (Doc (JInt n)) = Inr n"
| "int_of_blob (Doc j) = Inl ValueError"

text \<open>
  An observer connection of \<^verbatim>\<open>active_connections\<close>: whether \<^verbatim>\<open>send_json\<close> still succeeds
  on it, and the messages \<^verbatim>\<open>broadcast_websocket_message\<close> has sent to it.
\<close>

record websocket =
  accepts :: bool
  sent :: "json list"

text \<open>
  What a call of the API can change: the store, the messages published on the Redis
  channels (channel and payload, oldest first) and the observer connections.
\<close>

record world =
  store :: store
  published :: "(string \<times> blob) list"
  active_connections :: "(string \<times> websocket) list"

definition redis_publish :: "world \<Rightarrow> string \<Rightarrow> blob \<Rightarrow> world" where
  "redis_publish w channel payload = w\<lparr>published := published w @ [(channel, payload)]\<rparr>"

definition redis_set :: "world \<Rightarrow> string \<Rightarrow> blob \<Rightarrow> world" where
  "redis_set w k v = w\<lparr>store := dict_set k v (store w)\<rparr>"

definition redis_get :: "world \<Rightarrow> string \<Rightarrow> blob option" where
  "redis_get w k = map_of (store w) k"

definition redis_exists :: "world \<Rightarrow> string \<Rightarrow> bool" where
  "redis_exists w k = dict_has (store w) k"

text \<open>
  \<^verbatim>\<open>r.keys("agent:*:registration")\<close>: the keys that start with \<^verbatim>\<open>agent:\<close> and end with
  \<^verbatim>\<open>:registration\<close>, the star standing for any text between them. Redis promises no
  order; the model enumerates in the order of the store.
\<close>

definition is_registration_key :: "string \<Rightarrow> bool" where
  "is_registration_key k =
     (length ''agent:'' + length '':registration'' \<le> length k
      \<and> take (length ''agent:'') k = ''agent:''
      \<and> drop (length k - length '':registration'') k = '':registration'')"

definition registration_keys :: "world \<Rightarrow> string list" where
  "registration_keys w = filter is_registration_key (remdups (map fst (store w)))"

definition reg_key :: "string \<Rightarrow> string" where
  "reg_key agent_id = ''agent:'' @ agent_id @ '':registration''"

definition state_key :: "string \<Rightarrow> string" where
  "state_key agent_id = ''agent:'' @ agent_id @ '':state''"

definition metrics_key :: "string \<Rightarrow> string" where
  "metrics_key agent_id = ''agent:'' @ agent_id @ '':metrics''"

definition last_signal_key :: "string \<Rightarrow> string" where
  "last_signal_key agent_id = ''agent:'' @ agent_id @ '':last_signal''"

text \<open>
  \<^verbatim>\<open>
  async def publish_agent_event(redis_client, event_type, agent_id, data=None):
      message = {"type": event_type, "agentId": agent_id,
                 "timestamp": int(datetime.now().timestamp() * 1000)}
      if data:
          message.update(data)
      await redis_client.publish(f"agent_events", json.dumps(message))
  \<close>
  The reading of the wall clock is an input \<open>now\<close> of the model; \<^verbatim>\<open>data=None\<close> is the
  empty dict, which is as false as \<^verbatim>\<open>None\<close>.
\<close>

definition publish_agent_event :: "world \<Rightarrow> int \<Rightarrow> string \<Rightarrow> string \<Rightarrow> dict \<Rightarrow> world" where
  "publish_agent_event w now event_type agent_id data =
     (let message = [(''type'', JStr event_type), (''agentId'', JStr agent_id),
                     (''timestamp'', JInt now)];
          message = (if data \<noteq> [] then dict_update message data else message)
      in redis_publish w ''agent_events'' (Doc (JObj message)))"

text \<open>
  \<^verbatim>\<open>
  async def broadcast_websocket_message(message):
      disconnected = []
      for client_id, websocket in active_connections.items():
          try:
              await websocket.send_json(message)
          except Exception:
              disconnected.append(client_id)
      for client_id in disconnected:
          active_connections.pop(client_id, None)
  \<close>
\<close>

definition broadcast_websocket_message :: "world \<Rightarrow> json \<Rightarrow> world" where
  "broadcast_websocket_message w message =
     w\<lparr>active_connections :=
         map (\<lambda>(client_id, ws). (client_id, ws\<lparr>sent := sent ws @ [message]\<rparr>))
           (filter (\<lambda>(client_id, ws). accepts ws) (active_connections w))\<rparr>"

text \<open>Sequencing of steps that may raise.\<close>

definition and_then :: "'e + 'a \<Rightarrow> ('a \<Rightarrow> 'e + 'b) \<Rightarrow> 'e + 'b" where
  "and_then m f = (case m of Inl e \<Rightarrow> Inl e | Inr x \<Rightarrow> f x)"

section \<open>The routes\<close>

subsection \<open>\<^verbatim>\<open>list_agents\<close>\<close>

text \<open>
  \<^verbatim>\<open>
  class AgentPanelState(BaseModel):
      agentId: str
      name: Optional[str] = None
      status: str = Field(...)
      lastSignal: int = 0
      pnl24h: float = 0.0
      actions: List[str] = []
      tags: Optional[List[str]] = None
      lastUpdated: int = Field(default_factory=...)
  \<close>
  The panel entry built for one registration, with the types the class declares.
  \<^verbatim>\<open>lastUpdated\<close>, a reading of the wall clock, is left out, and a float is a rational
  number.
\<close>

record agent_panel_state =
  agentId :: string
  name :: "string option"
  status :: string
  lastSignal :: int
  pnl24h :: rat
  actions :: "string list"
  tags :: "string list"

text \<open>
  The constructor validates every argument against the declared type and raises
  \<^verbatim>\<open>ValidationError\<close> when one does not fit. The validation is pydantic's, a library the
  repository neither contains nor pins to a version. What the versions of the library
  have in common is written out below: a \<^verbatim>\<open>str\<close> field takes a string as it is and
  rejects \<^verbatim>\<open>None\<close>, a list and a dict; a \<^verbatim>\<open>float\<close> field takes an int or a float and rejects
  \<^verbatim>\<open>None\<close>, a list and a dict; \<^verbatim>\<open>Optional\<close> adds \<^verbatim>\<open>None\<close>; a list is validated element by
  element. Where the versions differ, the conversion is a parameter of the model:
  a bool or a number offered to a \<^verbatim>\<open>str\<close> field (version 1 takes \<^verbatim>\<open>str(x)\<close>, version 2
  rejects it), and a bool or a text offered to a \<^verbatim>\<open>float\<close> field. \<open>None\<close> is a rejection.
\<close>

record pydantic =
  str_of_number :: "json \<Rightarrow> string option"
  float_of_bool :: "bool \<Rightarrow> rat option"
  float_of_text :: "string \<Rightarrow> rat option"

definition accepted :: "'a option \<Rightarrow> py_error + 'a" where
  "accepted x = (case x of Some y \<Rightarrow> Inr y | None \<Rightarrow> Inl ValidationError)"

fun str_field :: "pydantic \<Rightarrow> json \<Rightarrow> py_error + string" where
  "str_field v (JStr s) = Inr s"
| "str_field v (JBool b) = accepted (str_of_number v (JBool b))"
| "str_field v (JInt n) = accepted (str_of_number v (JInt n))"
| "str_field v (JFloat r) = accepted (str_of_number v (JFloat r))"
| "str_field v JNull = Inl ValidationError"
| "str_field v (JList xs) = Inl ValidationError"
| "str_field v (JObj d) = Inl ValidationError"

fun optional_str_field :: "pydantic \<Rightarrow> json \<Rightarrow> py_error + string option" where
  "optional_str_field v JNull = Inr None"
| "optional_str_field v j = (case str_field v j of Inl e \<Rightarrow> Inl e | Inr s \<Rightarrow> Inr (Some s))"

fun float_field :: "pydantic \<Rightarrow> json \<Rightarrow> py_error + rat" where
  "float_field v (JInt n) = Inr (of_int n)"
| "float_field v (JFloat r) = Inr r"
| "float_field v (JBool b) = accepted (float_of_bool v b)"
| "float_field v (JStr s) = accepted (float_of_text v s)"
| "float_field v JNull = Inl ValidationError"
| "float_field v (JList xs) = Inl ValidationError"
| "float_field v (JObj d) = Inl ValidationError"

fun str_list_field :: "pydantic \<Rightarrow> json list \<Rightarrow> py_error + string list" where
  "str_list_field v [] = Inr []"
| "str_list_field v (j # js) =
     (case str_field v j of
        Inl e \<Rightarrow> Inl e
      | Inr s \<Rightarrow> (case str_list_field v js of Inl e \<Rightarrow> Inl e | Inr ss \<Rightarrow> Inr (s # ss)))"

text \<open>
  \<^verbatim>\<open>
  status = "running"
  if state == "paused":
      status = "paused"
  elif state == "disabled":
      status = "paused"
  \<close>
\<close>

definition status_of_state :: "string option \<Rightarrow> string" where
  "status_of_state state =
     (if state = Some ''paused'' then ''paused''
      else if state = Some ''disabled'' then ''paused''
      else ''running'')"

text \<open>
  \<^verbatim>\<open>exec_config.get("mode") == "canary" or exec_config.get("canaryMode", False)\<close>, as a
  condition.
\<close>

definition signals_canary :: "json \<Rightarrow> py_error + bool" where
  "signals_canary exec_config =
     and_then (py_get exec_config ''mode'' JNull) (\<lambda>mode.
       if mode = JStr ''canary'' then Inr True
       else and_then (py_get exec_config ''canaryMode'' (JBool False)) (\<lambda>canary_mode.
         Inr (truthy canary_mode)))"

text \<open>
  \<^verbatim>\<open>
  is_canary = False
  if "config" in agent_json and "executionConfig" in agent_json["config"]:
      exec_config = agent_json["config"]["executionConfig"]
      if (exec_config.get("mode") == "canary" or
          exec_config.get("canaryMode", False)):
          is_canary = True
          status = "canary"
  \<close>
\<close>

definition is_canary_of :: "json \<Rightarrow> py_error + bool" where
  "is_canary_of agent_json =
     and_then (py_in ''config'' agent_json) (\<lambda>has_config.
       if \<not> has_config then Inr False
       else and_then (py_getitem agent_json ''config'') (\<lambda>config.
         and_then (py_in ''executionConfig'' config) (\<lambda>has_exec.
           if \<not> has_exec then Inr False
           else and_then (py_getitem config ''executionConfig'') signals_canary)))"

text \<open>\<^verbatim>\<open>metrics = json.loads(metrics_data) if metrics_data else {}\<close>\<close>

definition metrics_of :: "blob option \<Rightarrow> py_error + json" where
  "metrics_of metrics_data =
     (case metrics_data of
        None \<Rightarrow> Inr (JObj [])
      | Some b \<Rightarrow> if blob_truthy b then json_loads b else Inr (JObj []))"

text \<open>
  \<^verbatim>\<open>
  actions = []
  if status == "running":
      actions = ["pause", "restart"]
  elif status == "paused":
      actions = ["resume", "restart"]
  elif status == "canary":
      actions = ["promote", "pause", "restart"]
  \<close>
\<close>

definition actions_of_status :: "string \<Rightarrow> string list" where
  "actions_of_status status_v =
     (if status_v = ''running'' then [''pause'', ''restart'']
      else if status_v = ''paused'' then [''resume'', ''restart'']
      else if status_v = ''canary'' then [''promote'', ''pause'', ''restart'']
      else [])"

text \<open>\<^verbatim>\<open>last_signal_time = int(last_signal) if last_signal else 0\<close>\<close>

definition last_signal_of :: "blob option \<Rightarrow> py_error + int" where
  "last_signal_of last_signal =
     (case last_signal of
        None \<Rightarrow> Inr 0
      | Some b \<Rightarrow> if blob_truthy b then int_of_blob b else Inr 0)"

text \<open>
  \<^verbatim>\<open>
  pnl_24h = metrics.get("pnl", 0.0)
  if "custom" in metrics and "pnl_24h" in metrics["custom"]:
      pnl_24h = metrics["custom"]["pnl_24h"]
  \<close>
\<close>

definition pnl_24h_of :: "json \<Rightarrow> py_error + json" where
  "pnl_24h_of metrics =
     and_then (py_get metrics ''pnl'' (JFloat 0)) (\<lambda>pnl.
       and_then (py_in ''custom'' metrics) (\<lambda>has_custom.
         if \<not> has_custom then Inr pnl
         else and_then (py_getitem metrics ''custom'') (\<lambda>custom.
           and_then (py_in ''pnl_24h'' custom) (\<lambda>has_pnl.
             if \<not> has_pnl then Inr pnl else py_getitem custom ''pnl_24h''))))"

text \<open>
  \<^verbatim>\<open>x[:2]\<close>, iterated: the first two elements of a list, the first two characters of a
  string; no other JSON value can be sliced.
\<close>

fun first_two :: "json \<Rightarrow> py_error + json list" where
  "first_two (JList xs) = Inr (take 2 xs)"
| "first_two (JStr s) = Inr (map (\<lambda>c. JStr [c]) (take 2 s))"
| "first_two _ = Inl TypeError"

text \<open>
  \<^verbatim>\<open>
  tags = []
  if is_canary:
      tags.append("canary")
  if status == "paused":
      tags.append("paused")
  if "tradingPairs" in agent_json:
      for pair in agent_json["tradingPairs"][:2]:
          tags.append(pair)
  if "agentType" in agent_json:
      tags.append(agent_json["agentType"])
  \<close>
\<close>

definition tags_of :: "json \<Rightarrow> bool \<Rightarrow> string \<Rightarrow> py_error + json list" where
  "tags_of agent_json is_canary status_v =
     (let tags0 = (if is_canary then [JStr ''canary''] else []);
          tags1 = (if status_v = ''paused'' then tags0 @ [JStr ''paused''] else tags0)
      in and_then (py_in ''tradingPairs'' agent_json) (\<lambda>has_pairs.
           and_then (if has_pairs
                     then and_then (py_getitem agent_json ''tradingPairs'') (\<lambda>pairs.
                            and_then (first_two pairs) (\<lambda>ps. Inr (tags1 @ ps)))
                     else Inr tags1) (\<lambda>tags2.
             and_then (py_in ''agentType'' agent_json) (\<lambda>has_type.
               if has_type
               then and_then (py_getitem agent_json ''agentType'') (\<lambda>t. Inr (tags2 @ [t]))
               else Inr tags2))))"

text \<open>
  The body of the loop of \<^verbatim>\<open>list_agents\<close> after \<^verbatim>\<open>agent_json = json.loads(agent_data)\<close>,
  in the order of the source: the agent id, the state and its status, the canary check
  (which overwrites the status), the metrics, the actions, the last signal, the PnL,
  the tags, and the constructor of \<^verbatim>\<open>AgentPanelState\<close>, which looks up the name and
  validates \<^verbatim>\<open>agentId\<close>, \<^verbatim>\<open>name\<close>, \<^verbatim>\<open>pnl24h\<close> and \<^verbatim>\<open>tags\<close> (\<^verbatim>\<open>status\<close>, \<^verbatim>\<open>lastSignal\<close> and \<^verbatim>\<open>actions\<close>
  have their declared types by construction). Any exception is caught by the loop,
  which then skips the registration: the loop body only reads the store, so no more
  than the fact of an exception is seen, not which one.

  The agent id is validated where it is read, not in the constructor: the three keys
  are texts, and a registration whose \<^verbatim>\<open>agentId\<close> the constructor would reject is
  skipped whatever was found under keys formed from it. An id that the validation
  converts (a number, with version 1) is formatted into the keys as the same text,
  \<^verbatim>\<open>str(x)\<close>.
\<close>

definition panel_of :: "pydantic \<Rightarrow> world \<Rightarrow> json \<Rightarrow> py_error + agent_panel_state" where
  "panel_of v w agent_json =
     and_then (py_get agent_json ''agentId'' (JStr ''unknown'')) (\<lambda>agent_id_value.
     and_then (str_field v agent_id_value) (\<lambda>agent_id.
     and_then (raw_state (redis_get w (state_key agent_id))) (\<lambda>state.
       let status0 = status_of_state state
       in
     and_then (is_canary_of agent_json) (\<lambda>is_canary.
       let status1 = (if is_canary then ''canary'' else status0)
       in
     and_then (metrics_of (redis_get w (metrics_key agent_id))) (\<lambda>metrics.
       let actions_v = actions_of_status status1
       in
     and_then (last_signal_of (redis_get w (last_signal_key agent_id))) (\<lambda>last_signal_time.
     and_then (pnl_24h_of metrics) (\<lambda>pnl_24h.
     and_then (tags_of agent_json is_canary status1) (\<lambda>tags_v.
     and_then (py_get agent_json ''name'' JNull) (\<lambda>name_v.
     and_then (optional_str_field v name_v) (\<lambda>name_s.
     and_then (float_field v pnl_24h) (\<lambda>pnl_f.
     and_then (str_list_field v tags_v) (\<lambda>tags_s.
       Inr \<lparr>agentId = agent_id, name = name_s, status = status1,
            lastSignal = last_signal_time, pnl24h = pnl_f,
            actions = actions_v, tags = tags_s\<rparr>))))))))))))"

text \<open>
  One round of the loop: \<^verbatim>\<open>agent_data = await r.get(reg_key)\<close>, \<^verbatim>\<open>if agent_data:\<close>, and the
  \<^verbatim>\<open>try\<close> around the body. The result is the list of panels the round appends.
\<close>

definition panel_of_key :: "pydantic \<Rightarrow> world \<Rightarrow> string \<Rightarrow> agent_panel_state list" where
  "panel_of_key v w key =
     (case redis_get w key of
        None \<Rightarrow> []
      | Some agent_data \<Rightarrow>
          if blob_truthy agent_data
          then (case and_then (json_loads agent_data) (panel_of v w) of
                  Inl e \<Rightarrow> []
                | Inr panel \<Rightarrow> [panel])
          else [])"

definition list_agents :: "pydantic \<Rightarrow> world \<Rightarrow> agent_panel_state list" where
  "list_agents v w = concat (map (panel_of_key v w) (registration_keys w))"

subsection \<open>\<^verbatim>\<open>get_agent_config\<close>\<close>

definition get_agent_config :: "world \<Rightarrow> string \<Rightarrow> http_error + json" where
  "get_agent_config w agent_id =
     (case redis_get w (reg_key agent_id) of
        None \<Rightarrow> Inl (HTTPException 404 ''Agent not found'')
      | Some agent_data \<Rightarrow>
          if \<not> blob_truthy agent_data then Inl (HTTPException 404 ''Agent not found'')
          else (case and_then (json_loads agent_data) (\<lambda>agent_json.
                       py_get agent_json ''config'' (JObj [])) of
                  Inl e \<Rightarrow> Inl (Unhandled e)
                | Inr config \<Rightarrow> Inr (JObj [(''agentId'', JStr agent_id), (''config'', config)])))"

subsection \<open>\<^verbatim>\<open>pause_agent\<close>, \<^verbatim>\<open>resume_agent\<close>, \<^verbatim>\<open>restart_agent\<close>\<close>

record agent_status =
  success :: bool
  message :: string

text \<open>
  The message the routes hand to \<^verbatim>\<open>broadcast_websocket_message\<close> after a change of
  state; \<open>now\<close> is the reading of the wall clock taken for it.
\<close>

definition status_changed :: "string \<Rightarrow> string \<Rightarrow> int \<Rightarrow> json" where
  "status_changed agent_id new_status now =
     JObj [(''type'', JStr ''agent_status_changed''), (''agentId'', JStr agent_id),
           (''status'', JStr new_status), (''timestamp'', JInt now)]"

text \<open>
  The three routes differ in the event type, the command channel, the state written
  and the reply. Each one: \<^verbatim>\<open>r.exists(reg_key)\<close> or 404; \<^verbatim>\<open>publish_agent_event\<close>; an empty
  payload on the agent's command channel; \<^verbatim>\<open>r.set(state_key, state)\<close>; the broadcast to
  the observers. \<open>t_event\<close> and \<open>t_ws\<close> are the two readings of the wall clock.
\<close>

definition pause_agent :: "world \<Rightarrow> int \<Rightarrow> int \<Rightarrow> string \<Rightarrow> (http_error + agent_status) \<times> world" where
  "pause_agent w t_event t_ws agent_id =
     (if \<not> redis_exists w (reg_key agent_id)
      then (Inl (HTTPException 404 ''Agent not found''), w)
      else
        let w1 = publish_agent_event w t_event ''pause_requested'' agent_id [];
            w2 = redis_publish w1 (''agent:'' @ agent_id @ '':pause'') (Text []);
            w3 = redis_set w2 (state_key agent_id) (Text ''paused'');
            w4 = broadcast_websocket_message w3 (status_changed agent_id ''paused'' t_ws)
        in (Inr \<lparr>success = True, message = ''Agent '' @ agent_id @ '' paused''\<rparr>, w4))"

definition resume_agent :: "world \<Rightarrow> int \<Rightarrow> int \<Rightarrow> string \<Rightarrow> (http_error + agent_status) \<times> world" where
  "resume_agent w t_event t_ws agent_id =
     (if \<not> redis_exists w (reg_key agent_id)
      then (Inl (HTTPException 404 ''Agent not found''), w)
      else
        let w1 = publish_agent_event w t_event ''resume_requested'' agent_id [];
            w2 = redis_publish w1 (''agent:'' @ agent_id @ '':resume'') (Text []);
            w3 = redis_set w2 (state_key agent_id) (Text ''running'');
            w4 = broadcast_websocket_message w3 (status_changed agent_id ''running'' t_ws)
        in (Inr \<lparr>success = True, message = ''Agent '' @ agent_id @ '' resumed''\<rparr>, w4))"

definition restart_agent :: "world \<Rightarrow> int \<Rightarrow> int \<Rightarrow> string \<Rightarrow> (http_error + agent_status) \<times> world" where
  "restart_agent w t_event t_ws agent_id =
     (if \<not> redis_exists w (reg_key agent_id)
      then (Inl (HTTPException 404 ''Agent not found''), w)
      else
        let w1 = publish_agent_event w t_event ''restart_requested'' agent_id [];
            w2 = redis_publish w1 (''agent:'' @ agent_id @ '':restart'') (Text []);
            w3 = redis_set w2 (state_key agent_id) (Text ''initializing'');
            w4 = broadcast_websocket_message w3 (status_changed agent_id ''initializing'' t_ws)
        in (Inr \<lparr>success = True, message = ''Agent '' @ agent_id @ '' restarting''\<rparr>, w4))"

subsection \<open>\<^verbatim>\<open>inject_config\<close>\<close>

text \<open>
  \<^verbatim>\<open>
  agent_json = json.loads(agent_data)
  if "config" not in agent_json:
      agent_json["config"] = {}
  deep_update(agent_json["config"], update.config)
  \<close>
  The merge mutates the dict that \<^verbatim>\<open>agent_json\<close> holds under \<^verbatim>\<open>config\<close>; the model writes
  the merged value back under that key.
\<close>

definition merged_registration :: "blob \<Rightarrow> dict \<Rightarrow> py_error + json" where
  "merged_registration agent_data patch =
     and_then (json_loads agent_data) (\<lambda>agent_json.
     and_then (py_in ''config'' agent_json) (\<lambda>has_config.
     and_then (if has_config then Inr agent_json
               else py_setitem agent_json ''config'' (JObj [])) (\<lambda>agent_json1.
     and_then (py_getitem agent_json1 ''config'') (\<lambda>config.
     and_then (deep_update_value config patch) (\<lambda>merged.
       py_setitem agent_json1 ''config'' merged)))))"

text \<open>
  The route publishes the event and the command before it decodes the registration, so
  an exception raised by the decoding or the merge leaves both published.
\<close>

definition inject_config ::
  "world \<Rightarrow> int \<Rightarrow> int \<Rightarrow> string \<Rightarrow> dict \<Rightarrow> (http_error + agent_status) \<times> world" where
  "inject_config w t_event t_ws agent_id patch =
     (case redis_get w (reg_key agent_id) of
        None \<Rightarrow> (Inl (HTTPException 404 ''Agent not found''), w)
      | Some agent_data \<Rightarrow>
          if \<not> blob_truthy agent_data then (Inl (HTTPException 404 ''Agent not found''), w)
          else
            let w1 = publish_agent_event w t_event ''config_update_requested'' agent_id
                       [(''config'', JObj patch)];
                w2 = redis_publish w1 (''agent:'' @ agent_id @ '':inject_config'') (Doc (JObj patch))
            in (case merged_registration agent_data patch of
                  Inl e \<Rightarrow> (Inl (Unhandled e), w2)
                | Inr agent_json \<Rightarrow>
                    let w3 = redis_set w2 (reg_key agent_id) (Doc agent_json);
                        w4 = broadcast_websocket_message w3
                               (JObj [(''type'', JStr ''agent_config_updated''),
                                      (''agentId'', JStr agent_id), (''timestamp'', JInt t_ws)])
                    in (Inr \<lparr>success = True,
                             message = ''Configuration injected into agent '' @ agent_id\<rparr>, w4)))"

subsection \<open>\<^verbatim>\<open>promote_canary\<close>\<close>

definition unhandled :: "py_error + 'a \<Rightarrow> http_error + 'a" where
  "unhandled m = (case m of Inl e \<Rightarrow> Inl (Unhandled e) | Inr x \<Rightarrow> Inr x)"

text \<open>\<^verbatim>\<open>"config" not in agent_json or "executionConfig" not in agent_json["config"]\<close>\<close>

definition lacks_exec_config :: "json \<Rightarrow> py_error + bool" where
  "lacks_exec_config agent_json =
     and_then (py_in ''config'' agent_json) (\<lambda>has_config.
       if \<not> has_config then Inr True
       else and_then (py_getitem agent_json ''config'') (\<lambda>config.
         and_then (py_in ''executionConfig'' config) (\<lambda>has_exec. Inr (\<not> has_exec))))"

text \<open>
  The checks of the route and the registration it goes on to save, with the execution
  config it sends to the agent:
  \<^verbatim>\<open>
  agent_json = json.loads(agent_data)
  if "config" not in agent_json or "executionConfig" not in agent_json["config"]:
      raise HTTPException(status_code=400, detail="Agent does not have execution configuration")
  exec_config = agent_json["config"]["executionConfig"]
  if not (exec_config.get("mode") == "canary" or exec_config.get("canaryMode", False)):
      raise HTTPException(status_code=400, detail="Agent is not in canary mode")
  exec_config["mode"] = "live"
  exec_config["canaryMode"] = False
  \<close>
  The two assignments mutate the dict inside \<^verbatim>\<open>agent_json\<close>; the model writes it back.
\<close>

definition promotion :: "blob \<Rightarrow> http_error + json \<times> json" where
  "promotion agent_data =
     and_then (unhandled (json_loads agent_data)) (\<lambda>agent_json.
     and_then (unhandled (lacks_exec_config agent_json)) (\<lambda>lacks.
       if lacks then Inl (HTTPException 400 ''Agent does not have execution configuration'')
       else
     and_then (unhandled (py_getitem agent_json ''config'')) (\<lambda>config.
     and_then (unhandled (py_getitem config ''executionConfig'')) (\<lambda>exec_config.
     and_then (unhandled (signals_canary exec_config)) (\<lambda>is_canary.
       if \<not> is_canary then Inl (HTTPException 400 ''Agent is not in canary mode'')
       else
     and_then (unhandled (py_setitem exec_config ''mode'' (JStr ''live''))) (\<lambda>exec1.
     and_then (unhandled (py_setitem exec1 ''canaryMode'' (JBool False))) (\<lambda>exec2.
     and_then (unhandled (py_setitem config ''executionConfig'' exec2)) (\<lambda>config1.
     and_then (unhandled (py_setitem agent_json ''config'' config1)) (\<lambda>agent_json1.
       Inr (agent_json1, exec2))))))))))"

definition promote_canary :: "world \<Rightarrow> int \<Rightarrow> int \<Rightarrow> string \<Rightarrow> (http_error + agent_status) \<times> world" where
  "promote_canary w t_event t_ws agent_id =
     (case redis_get w (reg_key agent_id) of
        None \<Rightarrow> (Inl (HTTPException 404 ''Agent not found''), w)
      | Some agent_data \<Rightarrow>
          if \<not> blob_truthy agent_data then (Inl (HTTPException 404 ''Agent not found''), w)
          else (case promotion agent_data of
                  Inl err \<Rightarrow> (Inl err, w)
                | Inr (agent_json, exec_config) \<Rightarrow>
                    let w1 = redis_set w (reg_key agent_id) (Doc agent_json);
                        w2 = publish_agent_event w1 t_event ''canary_promoted'' agent_id
                               [(''newMode'', JStr ''live'')];
                        w3 = redis_publish w2 (''agent:'' @ agent_id @ '':inject_config'')
                               (Doc (JObj [(''executionConfig'', exec_config)]));
                        w4 = broadcast_websocket_message w3 (status_changed agent_id ''running'' t_ws)
                    in (Inr \<lparr>success = True,
                             message = ''Agent '' @ agent_id @ '' promoted from canary to live''\<rparr>,
                        w4)))"

subsection \<open>The auth gate and the requests\<close>

text \<open>
  \<^verbatim>\<open>
  async def verify_token(authorization: str = Header(...)) -> dict:
      try:
          scheme, token = authorization.split()
          if scheme.lower() != "bearer":
              raise HTTPException(status_code=401, detail="Invalid authentication scheme")
          payload = jwt.decode(token, JWT_SECRET, algorithms=[JWT_ALGORITHM])
          return payload
      except jwt.PyJWTError:
          raise HTTPException(status_code=401, detail="Invalid token")
      except Exception:
          raise HTTPException(status_code=401, detail="Invalid authorization header")
  \<close>
  \<^verbatim>\<open>jwt.decode\<close> belongs to a library and is a parameter: \<open>None\<close> when it raises
  \<^verbatim>\<open>PyJWTError\<close>. The \<^verbatim>\<open>HTTPException\<close> of the scheme check is raised inside the \<^verbatim>\<open>try\<close> and
  caught by \<^verbatim>\<open>except Exception\<close>, as is the \<^verbatim>\<open>ValueError\<close> of unpacking other than two
  words. Splitting and lower-casing are modelled for ASCII.
\<close>

fun py_split_from :: "string \<Rightarrow> string \<Rightarrow> string list" where
  "py_split_from cur [] = (if cur = [] then [] else [cur])"
| "py_split_from cur (c # cs) =
     (if is_space c then (if cur = [] then py_split_from [] cs else cur # py_split_from [] cs)
      else py_split_from (cur @ [c]) cs)"

definition py_split :: "string \<Rightarrow> string list" where
  "py_split s = py_split_from [] s"

definition lower_char :: "char \<Rightarrow> char" where
  "lower_char c =
     (let n = (of_char c :: nat) in if 65 \<le> n \<and> n \<le> 90 then char_of (n + 32) else c)"

definition verify_token :: "(string \<Rightarrow> json option) \<Rightarrow> string \<Rightarrow> http_error + json" where
  "verify_token jwt_decode authorization_v =
     (case py_split authorization_v of
        [scheme, token] \<Rightarrow>
          if map lower_char scheme \<noteq> ''bearer''
          then Inl (HTTPException 401 ''Invalid authorization header'')
          else (case jwt_decode token of
                  Some payload \<Rightarrow> Inr payload
                | None \<Rightarrow> Inl (HTTPException 401 ''Invalid token''))
      | _ \<Rightarrow> Inl (HTTPException 401 ''Invalid authorization header''))"

text \<open>
  A request to one of the five mutating routes: the \<^verbatim>\<open>Authorization\<close> header it carries,
  if any, and its body. A route receives the parameters its signature declares; each
  of the five declares the body and \<^verbatim>\<open>r: redis.Redis = Depends(get_redis)\<close>, none declares
  the header or \<^verbatim>\<open>Depends(verify_token)\<close>.
\<close>

datatype operation = Pause | Resume | Restart | InjectConfig dict | PromoteCanary

record request =
  authorization :: "string option"
  operation :: operation
  body_agentId :: string

definition control_api :: "world \<Rightarrow> int \<Rightarrow> int \<Rightarrow> request \<Rightarrow> (http_error + agent_status) \<times> world" where
  "control_api w t_event t_ws req =
     (case operation req of
        Pause \<Rightarrow> pause_agent w t_event t_ws (body_agentId req)
      | Resume \<Rightarrow> resume_agent w t_event t_ws (body_agentId req)
      | Restart \<Rightarrow> restart_agent w t_event t_ws (body_agentId req)
      | InjectConfig patch \<Rightarrow> inject_config w t_event t_ws (body_agentId req) patch
      | PromoteCanary \<Rightarrow> promote_canary w t_event t_ws (body_agentId req))"

section \<open>Notions of the specification\<close>

text \<open>
  The registration document stored for an agent, as the data model of the
  specification sees it: the decoded JSON value, if one is stored.
\<close>

definition registration_of :: "world \<Rightarrow> string \<Rightarrow> json option" where
  "registration_of w agent_id =
     (case redis_get w (reg_key agent_id) of Some (Doc reg) \<Rightarrow> Some reg | _ \<Rightarrow> None)"

text \<open>The \<^verbatim>\<open>executionConfig\<close> sub-document of a registration's \<^verbatim>\<open>config\<close>.\<close>

definition exec_config_of :: "json \<Rightarrow> json option" where
  "exec_config_of reg =
     (case reg of
        JObj r \<Rightarrow> (case map_of r ''config'' of Some (JObj c) \<Rightarrow> map_of c ''executionConfig'' | _ \<Rightarrow> None)
      | _ \<Rightarrow> None)"

text \<open>\<^verbatim>\<open>mode == "canary"\<close> or \<^verbatim>\<open>canaryMode == true\<close>.\<close>

definition in_canary :: "dict \<Rightarrow> bool" where
  "in_canary ec = (map_of ec ''mode'' = Some (JStr ''canary'') \<or> map_of ec ''canaryMode'' = Some (JBool True))"

text \<open>
  A registration that has the shape of the data model: a document whose \<^verbatim>\<open>config\<close>, when
  present, is a document, whose \<^verbatim>\<open>executionConfig\<close>, when present, is a document, and
  whose \<^verbatim>\<open>canaryMode\<close>, when present, is a boolean.
\<close>

definition conforms :: "json \<Rightarrow> bool" where
  "conforms reg =
     (case reg of
        JObj r \<Rightarrow>
          (case map_of r ''config'' of
             None \<Rightarrow> True
           | Some (JObj c) \<Rightarrow>
               (case map_of c ''executionConfig'' of
                  None \<Rightarrow> True
                | Some (JObj ec) \<Rightarrow>
                    (case map_of ec ''canaryMode'' of
                       None \<Rightarrow> True
                     | Some (JBool b) \<Rightarrow> True
                     | Some _ \<Rightarrow> False)
                | Some _ \<Rightarrow> False)
           | Some _ \<Rightarrow> False)
      | _ \<Rightarrow> False)"

text \<open>
  The registration key of an agent is free, or holds a registration of that shape.
\<close>

definition registration_conforms :: "world \<Rightarrow> string \<Rightarrow> bool" where
  "registration_conforms w agent_id =
     (case redis_get w (reg_key agent_id) of
        None \<Rightarrow> True
      | Some (Doc reg) \<Rightarrow> conforms reg
      | Some (Text s) \<Rightarrow> False)"

text \<open>The payloads published on a channel, oldest first, and the type of an event.\<close>

definition topic_events :: "world \<Rightarrow> string \<Rightarrow> blob list" where
  "topic_events w channel = map snd (filter (\<lambda>(c, payload). c = channel) (published w))"

definition event_type :: "blob \<Rightarrow> json option" where
  "event_type payload = (case payload of Doc (JObj m) \<Rightarrow> map_of m ''type'' | _ \<Rightarrow> None)"

definition status_changed_events :: "world \<Rightarrow> blob list" where
  "status_changed_events w =
     filter (\<lambda>payload. event_type payload = Some (JStr ''agent_status_changed''))
       (topic_events w ''agent_events'')"

text \<open>What \<^verbatim>\<open>broadcast_websocket_message\<close> does to the observers that still accept a send.\<close>

definition delivered :: "json \<Rightarrow> (string \<times> websocket) list \<Rightarrow> (string \<times> websocket) list" where
  "delivered m conns =
     map (\<lambda>(client_id, ws). (client_id, ws\<lparr>sent := sent ws @ [m]\<rparr>))
       (filter (\<lambda>(client_id, ws). accepts ws) conns)"

section \<open>Example stores\<close>

text \<open>
  One agent \<^verbatim>\<open>a1\<close>, registered in canary mode and running, watched by an observer that
  accepts sends and one that does not.
\<close>

definition canary_registration :: json where
  "canary_registration =
     JObj [(''agentId'', JStr ''a1''), (''name'', JStr ''Alpha''),
           (''config'', JObj [(''executionConfig'', JObj [(''mode'', JStr ''canary'')])])]"

definition example_world :: world where
  "example_world =
     \<lparr>store = [(''agent:a1:registration'', Doc canary_registration),
               (''agent:a1:state'', Text ''running'')],
      published = [],
      active_connections = [(''c1'', \<lparr>accepts = True, sent = []\<rparr>),
                            (''c2'', \<lparr>accepts = False, sent = []\<rparr>)]\<rparr>"

text \<open>An agent \<^verbatim>\<open>a2\<close> whose config is \<^verbatim>\<open>{"a": {"b": 1, "c": 2}}\<close>.\<close>

definition nested_registration :: dict where
  "nested_registration =
     [(''agentId'', JStr ''a2''),
      (''config'', JObj [(''a'', JObj [(''b'', JInt 1), (''c'', JInt 2)])])]"

definition nested_world :: world where
  "nested_world =
     \<lparr>store = [(''agent:a2:registration'', Doc (JObj nested_registration))],
      published = [], active_connections = []\<rparr>"




text \<open>
  Two patches for \<^verbatim>\<open>inject_config\<close>, and the stores they leave when applied to \<^verbatim>\<open>a1\<close>:
  \<^verbatim>\<open>{"executionConfig": {"mode": "paper", "canaryMode": "false"}}\<close>, whose \<^verbatim>\<open>canaryMode\<close> is
  a text, and \<^verbatim>\<open>{"executionConfig": null}\<close>.
\<close>

definition text_flag_patch :: dict where
  "text_flag_patch =
     [(''executionConfig'', JObj [(''mode'', JStr ''paper''), (''canaryMode'', JStr ''false'')])]"

definition text_flag_world :: world where
  "text_flag_world = snd (inject_config example_world 10 11 ''a1'' text_flag_patch)"

definition null_exec_patch :: dict where
  "null_exec_patch = [(''executionConfig'', JNull)]"

definition null_exec_world :: world where
  "null_exec_world = snd (inject_config example_world 10 11 ''a1'' null_exec_patch)"

section \<open>Dictionaries and the store\<close>

lemma map_of_dict_set: "map_of (dict_set k v d) = (map_of d)(k \<mapsto> v)"
  by (induction d) (auto simp: fun_eq_iff)

lemma map_of_dict_set_same [simp]: "map_of (dict_set k v d) k = Some v"
  by (simp add: map_of_dict_set)

lemma map_of_dict_set_other [simp]: "k' \<noteq> k \<Longrightarrow> map_of (dict_set k v d) k' = map_of d k'"
  by (simp add: map_of_dict_set)

lemma dict_set_unchanged: "map_of d k = Some v \<Longrightarrow> dict_set k v d = d"
  by (induction d) (auto split: if_splits)

lemma redis_get_set: "redis_get (redis_set w k v) k' = (if k' = k then Some v else redis_get w k')"
  by (simp add: redis_get_def redis_set_def)

lemma redis_get_publish [simp]: "redis_get (redis_publish w c p) k = redis_get w k"
  by (simp add: redis_get_def redis_publish_def)

lemma redis_get_event [simp]: "redis_get (publish_agent_event w t e a data) k = redis_get w k"
  by (simp add: publish_agent_event_def Let_def)

lemma redis_get_broadcast [simp]: "redis_get (broadcast_websocket_message w m) k = redis_get w k"
  by (simp add: redis_get_def broadcast_websocket_message_def)

lemma store_publish [simp]: "store (redis_publish w c p) = store w"
  by (simp add: redis_publish_def)

lemma store_event [simp]: "store (publish_agent_event w t e a data) = store w"
  by (simp add: publish_agent_event_def Let_def)

lemma store_broadcast [simp]: "store (broadcast_websocket_message w m) = store w"
  by (simp add: broadcast_websocket_message_def)

lemma store_set [simp]: "store (redis_set w k v) = dict_set k v (store w)"
  by (simp add: redis_set_def)

lemma published_set [simp]: "published (redis_set w k v) = published w"
  by (simp add: redis_set_def)

lemma published_broadcast [simp]: "published (broadcast_websocket_message w m) = published w"
  by (simp add: broadcast_websocket_message_def)

lemma published_publish [simp]: "published (redis_publish w c p) = published w @ [(c, p)]"
  by (simp add: redis_publish_def)

lemma published_event:
  "published (publish_agent_event w t e a data) =
     published w @
     [(''agent_events'',
       Doc (JObj (if data \<noteq> [] then dict_update [(''type'', JStr e), (''agentId'', JStr a), (''timestamp'', JInt t)] data
                  else [(''type'', JStr e), (''agentId'', JStr a), (''timestamp'', JInt t)])))]"
  by (simp add: publish_agent_event_def Let_def)

lemma connections_set [simp]: "active_connections (redis_set w k v) = active_connections w"
  by (simp add: redis_set_def)

lemma connections_publish [simp]: "active_connections (redis_publish w c p) = active_connections w"
  by (simp add: redis_publish_def)

lemma connections_event [simp]:
  "active_connections (publish_agent_event w t e a data) = active_connections w"
  by (simp add: publish_agent_event_def Let_def)

lemma connections_broadcast [simp]:
  "active_connections (broadcast_websocket_message w m) = delivered m (active_connections w)"
  by (simp add: broadcast_websocket_message_def delivered_def)

section \<open>The deep merge\<close>

lemma merge_entry_other:
  "k \<noteq> k' \<Longrightarrow>
   map_of (case v of
             JObj vd \<Rightarrow>
               (case map_of d k' of
                  Some (JObj dd) \<Rightarrow> dict_set k' (JObj (deep_update dd vd)) d
                | _ \<Rightarrow> dict_set k' v d)
           | _ \<Rightarrow> dict_set k' v d) k = map_of d k"
  by (simp split: json.splits option.splits)

lemma merge_entry_same:
  "map_of (case v of
             JObj vd \<Rightarrow>
               (case map_of d k of
                  Some (JObj dd) \<Rightarrow> dict_set k (JObj (deep_update dd vd)) d
                | _ \<Rightarrow> dict_set k v d)
           | _ \<Rightarrow> dict_set k v d) k
   = Some (case v of
             JObj vd \<Rightarrow> (case map_of d k of Some (JObj dd) \<Rightarrow> JObj (deep_update dd vd) | _ \<Rightarrow> v)
           | _ \<Rightarrow> v)"
  by (simp split: json.splits option.splits)

text \<open>A key the patch does not mention keeps its value.\<close>

lemma deep_update_other_key:
  "k \<notin> fst ` set u \<Longrightarrow> map_of (deep_update d u) k = map_of d k"
proof (induction u arbitrary: d)
  case Nil
  then show ?case by simp
next
  case (Cons p u)
  obtain k' v' where p: "p = (k', v')" by (cases p)
  with Cons.prems have ne: "k \<noteq> k'" and "k \<notin> fst ` set u" by auto
  then show ?case
    unfolding p by (simp add: Cons.IH merge_entry_other)
qed

text \<open>
  A key the patch mentions: two dicts are merged recursively, anything else is
  replaced by the value of the patch. The keys of a Python dict are distinct.
\<close>

lemma deep_update_lookup:
  "distinct (map fst u) \<Longrightarrow>
   map_of (deep_update d u) k =
     (case map_of u k of
        None \<Rightarrow> map_of d k
      | Some v \<Rightarrow>
          Some (case v of
                  JObj vd \<Rightarrow> (case map_of d k of Some (JObj dd) \<Rightarrow> JObj (deep_update dd vd) | _ \<Rightarrow> v)
                | _ \<Rightarrow> v))"
proof (induction u arbitrary: d)
  case Nil
  then show ?case by simp
next
  case (Cons p u)
  obtain k' v' where p: "p = (k', v')" by (cases p)
  from Cons.prems p have notin: "k' \<notin> fst ` set u" and dist: "distinct (map fst u)"
    by auto
  define d1 where "d1 =
    (case v' of
       JObj vd \<Rightarrow>
         (case map_of d k' of
            Some (JObj dd) \<Rightarrow> dict_set k' (JObj (deep_update dd vd)) d
          | _ \<Rightarrow> dict_set k' v' d)
     | _ \<Rightarrow> dict_set k' v' d)"
  have unfold: "deep_update d (p # u) = deep_update d1 u"
    by (simp add: p d1_def)
  have head: "map_of (p # u) k' = Some v'"
    by (simp add: p)
  show ?case
  proof (cases "k = k'")
    case True
    have "map_of (deep_update d1 u) k' = map_of d1 k'"
      using notin by (rule deep_update_other_key)
    also have "\<dots> = Some (case v' of
             JObj vd \<Rightarrow> (case map_of d k' of Some (JObj dd) \<Rightarrow> JObj (deep_update dd vd) | _ \<Rightarrow> v')
           | _ \<Rightarrow> v')"
      unfolding d1_def by (rule merge_entry_same)
    finally show ?thesis
      unfolding unfold True head by simp
  next
    case False
    have eq: "map_of d1 k = map_of d k"
      unfolding d1_def using False by (rule merge_entry_other)
    have tail: "map_of (p # u) k = map_of u k"
      using False by (simp add: p)
    show ?thesis
      unfolding unfold tail Cons.IH [OF dist] eq by (rule refl)
  qed
qed

lemma merged_registration_dict:
  "map_of reg ''config'' = Some (JObj d) \<Longrightarrow>
   merged_registration (Doc (JObj reg)) patch
   = Inr (JObj (dict_set ''config'' (JObj (deep_update d patch)) reg))"
  by (simp add: merged_registration_def and_then_def dict_has_def)

lemma inject_config_stored:
  assumes "redis_get w (reg_key a) = Some (Doc (JObj reg))"
    and "map_of reg ''config'' = Some (JObj d)"
  shows "redis_get (snd (inject_config w t1 t2 a patch)) (reg_key a)
         = Some (Doc (JObj (dict_set ''config'' (JObj (deep_update d patch)) reg)))"
  using assms
  by (simp add: inject_config_def merged_registration_dict Let_def redis_get_set)

text \<open>
  Claim C2. \<^verbatim>\<open>inject_config\<close> stores the registration with its config deep-merged with
  the patch. Under every key of the patch, the merged config holds the recursive merge
  when both the old and the new value are dicts, and the value of the patch otherwise;
  every other key keeps its value. With the config \<^verbatim>\<open>{"a": {"b": 1, "c": 2}}\<close>, the patch
  \<^verbatim>\<open>{"a": {"b": 5}}\<close> gives \<^verbatim>\<open>{"a": {"b": 5, "c": 2}}\<close> and the patch \<^verbatim>\<open>{"a": 9}\<close> gives \<^verbatim>\<open>{"a": 9}\<close>.
\<close>

theorem inject_config_deep_merge:
  "(redis_get w (reg_key a) = Some (Doc (JObj reg)) \<and> map_of reg ''config'' = Some (JObj d) \<longrightarrow>
      redis_get (snd (inject_config w t1 t2 a patch)) (reg_key a)
      = Some (Doc (JObj (dict_set ''config'' (JObj (deep_update d patch)) reg))))
   \<and> (distinct (map fst patch) \<longrightarrow>
        map_of (deep_update d patch) k =
          (case map_of patch k of
             None \<Rightarrow> map_of d k
           | Some v \<Rightarrow>
               Some (case v of
                       JObj vd \<Rightarrow>
                         (case map_of d k of Some (JObj dd) \<Rightarrow> JObj (deep_update dd vd) | _ \<Rightarrow> v)
                     | _ \<Rightarrow> v)))
   \<and> (redis_get w (reg_key a) = Some (Doc (JObj reg))
        \<and> map_of reg ''config'' = Some (JObj [(''a'', JObj [(''b'', JInt 1), (''c'', JInt 2)])]) \<longrightarrow>
        redis_get (snd (inject_config w t1 t2 a [(''a'', JObj [(''b'', JInt 5)])])) (reg_key a)
        = Some (Doc (JObj (dict_set ''config'' (JObj [(''a'', JObj [(''b'', JInt 5), (''c'', JInt 2)])]) reg)))
        \<and> redis_get (snd (inject_config w t1 t2 a [(''a'', JInt 9)])) (reg_key a)
        = Some (Doc (JObj (dict_set ''config'' (JObj [(''a'', JInt 9)]) reg))))"
proof (intro conjI impI)
  assume "redis_get w (reg_key a) = Some (Doc (JObj reg)) \<and> map_of reg ''config'' = Some (JObj d)"
  then show "redis_get (snd (inject_config w t1 t2 a patch)) (reg_key a)
      = Some (Doc (JObj (dict_set ''config'' (JObj (deep_update d patch)) reg)))"
    by (simp add: inject_config_stored)
next
  assume "distinct (map fst patch)"
  then show "map_of (deep_update d patch) k =
          (case map_of patch k of
             None \<Rightarrow> map_of d k
           | Some v \<Rightarrow>
               Some (case v of
                       JObj vd \<Rightarrow>
                         (case map_of d k of Some (JObj dd) \<Rightarrow> JObj (deep_update dd vd) | _ \<Rightarrow> v)
                     | _ \<Rightarrow> v))"
    by (rule deep_update_lookup)
next
  assume h: "redis_get w (reg_key a) = Some (Doc (JObj reg))
        \<and> map_of reg ''config'' = Some (JObj [(''a'', JObj [(''b'', JInt 1), (''c'', JInt 2)])])"
  then show "redis_get (snd (inject_config w t1 t2 a [(''a'', JObj [(''b'', JInt 5)])])) (reg_key a)
        = Some (Doc (JObj (dict_set ''config'' (JObj [(''a'', JObj [(''b'', JInt 5), (''c'', JInt 2)])]) reg)))"
    by (simp add: inject_config_stored)
  from h show "redis_get (snd (inject_config w t1 t2 a [(''a'', JInt 9)])) (reg_key a)
        = Some (Doc (JObj (dict_set ''config'' (JObj [(''a'', JInt 9)]) reg)))"
    by (simp add: inject_config_stored)
qed

theorem inject_config_deep_merge_witness:
  "redis_get nested_world (reg_key ''a2'') = Some (Doc (JObj nested_registration))
   \<and> map_of nested_registration ''config'' = Some (JObj [(''a'', JObj [(''b'', JInt 1), (''c'', JInt 2)])])
   \<and> distinct (map fst [(''a'', JObj [(''b'', JInt 5)])])
   \<and> redis_get (snd (inject_config nested_world 10 11 ''a2'' [(''a'', JObj [(''b'', JInt 5)])])) (reg_key ''a2'')
     = Some (Doc (JObj [(''agentId'', JStr ''a2''),
                        (''config'', JObj [(''a'', JObj [(''b'', JInt 5), (''c'', JInt 2)])])]))
   \<and> redis_get (snd (inject_config nested_world 10 11 ''a2'' [(''a'', JInt 9)])) (reg_key ''a2'')
     = Some (Doc (JObj [(''agentId'', JStr ''a2''), (''config'', JObj [(''a'', JInt 9)])]))
   \<and> map_of (deep_update [(''a'', JObj [(''b'', JInt 1), (''c'', JInt 2)])] [(''a'', JObj [(''b'', JInt 5)])]) ''a''
     = Some (JObj [(''b'', JInt 5), (''c'', JInt 2)])"
  using inject_config_deep_merge [of nested_world "''a2''" nested_registration
      "[(''a'', JObj [(''b'', JInt 1), (''c'', JInt 2)])]" 10 11
      "[(''a'', JObj [(''b'', JInt 5)])]" "''a''"]
  by (simp add: nested_world_def nested_registration_def redis_get_def reg_key_def)

section \<open>The keys of the four documents\<close>

text \<open>
  The four kinds of key end in different characters, so a state key is never the
  registration, metrics or last-signal key of any agent.
\<close>

lemma last_reg_key: "last (reg_key b) = CHR ''n''"
  by (simp add: reg_key_def)

lemma last_state_key: "last (state_key a) = CHR ''e''"
  by (simp add: state_key_def)

lemma last_metrics_key: "last (metrics_key b) = CHR ''s''"
  by (simp add: metrics_key_def)

lemma last_last_signal_key: "last (last_signal_key b) = CHR ''l''"
  by (simp add: last_signal_key_def)

lemma reg_key_not_state_key: "reg_key b \<noteq> state_key a"
proof
  assume "reg_key b = state_key a"
  then have "last (reg_key b) = last (state_key a)" by simp
  then show False by (simp add: last_reg_key last_state_key)
qed

lemma metrics_key_not_state_key: "metrics_key b \<noteq> state_key a"
proof
  assume "metrics_key b = state_key a"
  then have "last (metrics_key b) = last (state_key a)" by simp
  then show False by (simp add: last_metrics_key last_state_key)
qed

lemma last_signal_key_not_state_key: "last_signal_key b \<noteq> state_key a"
proof
  assume "last_signal_key b = state_key a"
  then have "last (last_signal_key b) = last (state_key a)" by simp
  then show False by (simp add: last_last_signal_key last_state_key)
qed

section \<open>Pause, resume, restart\<close>

lemma pause_agent_found:
  "redis_exists w (reg_key a) \<Longrightarrow>
   pause_agent w t1 t2 a =
     (Inr \<lparr>success = True, message = ''Agent '' @ a @ '' paused''\<rparr>,
      broadcast_websocket_message
        (redis_set
           (redis_publish (publish_agent_event w t1 ''pause_requested'' a [])
              (''agent:'' @ a @ '':pause'') (Text []))
           (state_key a) (Text ''paused''))
        (status_changed a ''paused'' t2))"
  by (simp add: pause_agent_def Let_def)

lemma resume_agent_found:
  "redis_exists w (reg_key a) \<Longrightarrow>
   resume_agent w t1 t2 a =
     (Inr \<lparr>success = True, message = ''Agent '' @ a @ '' resumed''\<rparr>,
      broadcast_websocket_message
        (redis_set
           (redis_publish (publish_agent_event w t1 ''resume_requested'' a [])
              (''agent:'' @ a @ '':resume'') (Text []))
           (state_key a) (Text ''running''))
        (status_changed a ''running'' t2))"
  by (simp add: resume_agent_def Let_def)

lemma restart_agent_found:
  "redis_exists w (reg_key a) \<Longrightarrow>
   restart_agent w t1 t2 a =
     (Inr \<lparr>success = True, message = ''Agent '' @ a @ '' restarting''\<rparr>,
      broadcast_websocket_message
        (redis_set
           (redis_publish (publish_agent_event w t1 ''restart_requested'' a [])
              (''agent:'' @ a @ '':restart'') (Text []))
           (state_key a) (Text ''initializing''))
        (status_changed a ''initializing'' t2))"
  by (simp add: restart_agent_def Let_def)

lemma redis_exists_iff: "redis_exists w k \<longleftrightarrow> redis_get w k \<noteq> None"
  by (simp add: redis_exists_def redis_get_def dict_has_def)

lemma state_write_frame:
  "store w' = dict_set (state_key a) v (store w) \<Longrightarrow>
   redis_get w' (state_key a) = Some v
   \<and> redis_get w' (reg_key b) = redis_get w (reg_key b)
   \<and> redis_get w' (metrics_key b) = redis_get w (metrics_key b)
   \<and> redis_get w' (last_signal_key b) = redis_get w (last_signal_key b)"
  by (simp add: redis_get_def reg_key_not_state_key metrics_key_not_state_key
      last_signal_key_not_state_key)

text \<open>
  Claim C7. When no registration is stored for the agent id, each of \<^verbatim>\<open>pause\<close>,
  \<^verbatim>\<open>resume\<close>, \<^verbatim>\<open>restart\<close>, \<^verbatim>\<open>getConfig\<close>, \<^verbatim>\<open>injectConfig\<close> and \<^verbatim>\<open>promoteCanary\<close> answers 404
  "Agent not found"; the store, the published messages and the observers are what they
  were before the call.
\<close>

theorem unknown_agent_not_found:
  "redis_get w (reg_key a) = None \<Longrightarrow>
   pause_agent w t1 t2 a = (Inl (HTTPException 404 ''Agent not found''), w)
   \<and> resume_agent w t1 t2 a = (Inl (HTTPException 404 ''Agent not found''), w)
   \<and> restart_agent w t1 t2 a = (Inl (HTTPException 404 ''Agent not found''), w)
   \<and> get_agent_config w a = Inl (HTTPException 404 ''Agent not found'')
   \<and> inject_config w t1 t2 a patch = (Inl (HTTPException 404 ''Agent not found''), w)
   \<and> promote_canary w t1 t2 a = (Inl (HTTPException 404 ''Agent not found''), w)"
  by (simp add: pause_agent_def resume_agent_def restart_agent_def get_agent_config_def
      inject_config_def promote_canary_def redis_exists_iff)

theorem unknown_agent_not_found_witness:
  "redis_get example_world (reg_key ''ghost'') = None
   \<and> pause_agent example_world 10 11 ''ghost'' = (Inl (HTTPException 404 ''Agent not found''), example_world)
   \<and> resume_agent example_world 10 11 ''ghost'' = (Inl (HTTPException 404 ''Agent not found''), example_world)
   \<and> restart_agent example_world 10 11 ''ghost'' = (Inl (HTTPException 404 ''Agent not found''), example_world)
   \<and> get_agent_config example_world ''ghost'' = Inl (HTTPException 404 ''Agent not found'')
   \<and> inject_config example_world 10 11 ''ghost'' [(''x'', JInt 1)]
       = (Inl (HTTPException 404 ''Agent not found''), example_world)
   \<and> promote_canary example_world 10 11 ''ghost'' = (Inl (HTTPException 404 ''Agent not found''), example_world)"
proof -
  have h: "redis_get example_world (reg_key ''ghost'') = None"
    by (simp add: example_world_def redis_get_def reg_key_def)
  show ?thesis
    using h unknown_agent_not_found [OF h, of 10 11 "[(''x'', JInt 1)]"] by simp
qed

text \<open>
  Claim C8. For a registered agent, \<^verbatim>\<open>pause\<close> writes the state \<^verbatim>\<open>paused\<close>, \<^verbatim>\<open>resume\<close> writes
  \<^verbatim>\<open>running\<close> and \<^verbatim>\<open>restart\<close> writes \<^verbatim>\<open>initializing\<close> under the state key of that agent, and
  that assignment is the only change of the store: the registration, the metrics and
  the last signal of every agent are what they were.
\<close>

theorem lifecycle_writes_state_only:
  "redis_exists w (reg_key a) \<Longrightarrow>
   store (snd (pause_agent w t1 t2 a)) = dict_set (state_key a) (Text ''paused'') (store w)
   \<and> store (snd (resume_agent w t1 t2 a)) = dict_set (state_key a) (Text ''running'') (store w)
   \<and> store (snd (restart_agent w t1 t2 a)) = dict_set (state_key a) (Text ''initializing'') (store w)
   \<and> redis_get (snd (pause_agent w t1 t2 a)) (state_key a) = Some (Text ''paused'')
   \<and> redis_get (snd (resume_agent w t1 t2 a)) (state_key a) = Some (Text ''running'')
   \<and> redis_get (snd (restart_agent w t1 t2 a)) (state_key a) = Some (Text ''initializing'')
   \<and> (\<forall>w' \<in> {snd (pause_agent w t1 t2 a), snd (resume_agent w t1 t2 a), snd (restart_agent w t1 t2 a)}.
        \<forall>b. redis_get w' (reg_key b) = redis_get w (reg_key b)
           \<and> redis_get w' (metrics_key b) = redis_get w (metrics_key b)
           \<and> redis_get w' (last_signal_key b) = redis_get w (last_signal_key b))"
proof -
  assume found: "redis_exists w (reg_key a)"
  have p: "store (snd (pause_agent w t1 t2 a)) = dict_set (state_key a) (Text ''paused'') (store w)"
    by (simp add: pause_agent_found [OF found])
  have r: "store (snd (resume_agent w t1 t2 a)) = dict_set (state_key a) (Text ''running'') (store w)"
    by (simp add: resume_agent_found [OF found])
  have s: "store (snd (restart_agent w t1 t2 a)) = dict_set (state_key a) (Text ''initializing'') (store w)"
    by (simp add: restart_agent_found [OF found])
  show ?thesis
    using state_write_frame [OF p] state_write_frame [OF r] state_write_frame [OF s] p r s
    by simp
qed

theorem lifecycle_writes_state_only_witness:
  "redis_exists example_world (reg_key ''a1'')
   \<and> store (snd (pause_agent example_world 10 11 ''a1''))
       = [(''agent:a1:registration'', Doc canary_registration), (''agent:a1:state'', Text ''paused'')]
   \<and> store (snd (restart_agent example_world 10 11 ''a1''))
       = [(''agent:a1:registration'', Doc canary_registration), (''agent:a1:state'', Text ''initializing'')]
   \<and> redis_get (snd (resume_agent example_world 10 11 ''a1'')) (state_key ''a1'') = Some (Text ''running'')
   \<and> redis_get (snd (pause_agent example_world 10 11 ''a1'')) (reg_key ''a1'') = Some (Doc canary_registration)"
proof -
  have h: "redis_exists example_world (reg_key ''a1'')"
    by (simp add: example_world_def redis_exists_def dict_has_def reg_key_def)
  have g: "redis_get example_world (reg_key ''a1'') = Some (Doc canary_registration)"
    by (simp add: example_world_def redis_get_def reg_key_def)
  show ?thesis
    using h g lifecycle_writes_state_only [OF h, of 10 11]
    by (simp add: example_world_def state_key_def)
qed

section \<open>The empty patch\<close>

lemma merged_registration_empty:
  "map_of reg ''config'' = Some c \<Longrightarrow> merged_registration (Doc (JObj reg)) [] = Inr (JObj reg)"
  by (cases c) (simp_all add: merged_registration_def and_then_def dict_has_def dict_set_unchanged)

text \<open>
  Claim C9. On a registration that has a \<^verbatim>\<open>config\<close>, \<^verbatim>\<open>injectConfig\<close> with the empty patch
  succeeds, leaves the store as it was, and publishes the \<^verbatim>\<open>config_update_requested\<close>
  event that carries the empty patch and the empty patch on the agent's
  \<^verbatim>\<open>inject_config\<close> channel.
\<close>

theorem inject_empty_patch:
  "redis_get w (reg_key a) = Some (Doc (JObj reg)) \<Longrightarrow> map_of reg ''config'' = Some c \<Longrightarrow>
   fst (inject_config w t1 t2 a [])
     = Inr \<lparr>success = True, message = ''Configuration injected into agent '' @ a\<rparr>
   \<and> store (snd (inject_config w t1 t2 a [])) = store w
   \<and> published (snd (inject_config w t1 t2 a []))
     = published w @
       [(''agent_events'',
         Doc (JObj [(''type'', JStr ''config_update_requested''), (''agentId'', JStr a),
                    (''timestamp'', JInt t1), (''config'', JObj [])])),
        (''agent:'' @ a @ '':inject_config'', Doc (JObj []))]"
proof -
  assume stored: "redis_get w (reg_key a) = Some (Doc (JObj reg))"
    and config: "map_of reg ''config'' = Some c"
  from stored have same: "dict_set (reg_key a) (Doc (JObj reg)) (store w) = store w"
    by (simp add: redis_get_def dict_set_unchanged)
  show ?thesis
    using stored
    by (simp add: inject_config_def merged_registration_empty [OF config] Let_def same
        published_event dict_update_def)
qed

theorem inject_empty_patch_witness:
  "redis_get nested_world (reg_key ''a2'') = Some (Doc (JObj nested_registration))
   \<and> map_of nested_registration ''config'' = Some (JObj [(''a'', JObj [(''b'', JInt 1), (''c'', JInt 2)])])
   \<and> fst (inject_config nested_world 10 11 ''a2'' [])
     = Inr \<lparr>success = True, message = ''Configuration injected into agent a2''\<rparr>
   \<and> store (snd (inject_config nested_world 10 11 ''a2'' [])) = store nested_world
   \<and> published (snd (inject_config nested_world 10 11 ''a2'' []))
     = [(''agent_events'',
         Doc (JObj [(''type'', JStr ''config_update_requested''), (''agentId'', JStr ''a2''),
                    (''timestamp'', JInt 10), (''config'', JObj [])])),
        (''agent:a2:inject_config'', Doc (JObj []))]"
proof -
  have h1: "redis_get nested_world (reg_key ''a2'') = Some (Doc (JObj nested_registration))"
    by (simp add: nested_world_def redis_get_def reg_key_def)
  have h2: "map_of nested_registration ''config'' = Some (JObj [(''a'', JObj [(''b'', JInt 1), (''c'', JInt 2)])])"
    by (simp add: nested_registration_def)
  have p: "published nested_world = []"
    by (simp add: nested_world_def)
  show ?thesis
    using h1 h2 inject_empty_patch [OF h1 h2, of 10 11] by (simp add: p)
qed

section \<open>Canary promotion\<close>

lemma signals_canary_dict:
  "(case map_of ec ''canaryMode'' of None \<Rightarrow> True | Some (JBool b) \<Rightarrow> True | Some _ \<Rightarrow> False) \<Longrightarrow>
   signals_canary (JObj ec) = Inr (in_canary ec)"
  by (auto simp: signals_canary_def and_then_def in_canary_def split: option.splits json.splits)

text \<open>The outcome of the checks on a registration that has the shape of the data model.\<close>

lemma promotion_no_exec_config:
  "conforms reg \<Longrightarrow> exec_config_of reg = None \<Longrightarrow>
   promotion (Doc reg) = Inl (HTTPException 400 ''Agent does not have execution configuration'')"
  by (auto simp: conforms_def exec_config_of_def promotion_def lacks_exec_config_def
      and_then_def unhandled_def dict_has_def split: json.splits option.splits)

lemma promotion_exec_config:
  assumes "conforms reg" and "exec_config_of reg = Some x"
  obtains r c ec where "reg = JObj r" and "map_of r ''config'' = Some (JObj c)"
    and "map_of c ''executionConfig'' = Some (JObj ec)" and "x = JObj ec"
    and "signals_canary (JObj ec) = Inr (in_canary ec)"
proof -
  from assms obtain r where r: "reg = JObj r"
    by (cases reg) (simp_all add: conforms_def)
  from assms r obtain c where c: "map_of r ''config'' = Some (JObj c)"
    by (auto simp: exec_config_of_def split: option.splits json.splits)
  from assms r c have x: "map_of c ''executionConfig'' = Some x"
    by (simp add: exec_config_of_def)
  from assms(1) r c x obtain ec where ec: "x = JObj ec"
    by (cases x) (simp_all add: conforms_def)
  from assms(1) r c x ec
  have "case map_of ec ''canaryMode'' of None \<Rightarrow> True | Some (JBool b) \<Rightarrow> True | Some _ \<Rightarrow> False"
    by (simp add: conforms_def)
  then have "signals_canary (JObj ec) = Inr (in_canary ec)"
    by (rule signals_canary_dict)
  with r c x ec show ?thesis
    using that by simp
qed

lemma promotion_dicts:
  "map_of r ''config'' = Some (JObj c) \<Longrightarrow> map_of c ''executionConfig'' = Some (JObj ec) \<Longrightarrow>
   signals_canary (JObj ec) = Inr b \<Longrightarrow>
   promotion (Doc (JObj r)) =
     (if b
      then Inr (JObj (dict_set ''config''
                        (JObj (dict_set ''executionConfig''
                                 (JObj (dict_set ''canaryMode'' (JBool False)
                                          (dict_set ''mode'' (JStr ''live'') ec))) c)) r),
                JObj (dict_set ''canaryMode'' (JBool False) (dict_set ''mode'' (JStr ''live'') ec)))
      else Inl (HTTPException 400 ''Agent is not in canary mode''))"
  by (simp add: promotion_def lacks_exec_config_def and_then_def unhandled_def dict_has_def)

text \<open>A promotion that passes the checks started from dicts all the way down.\<close>

lemma promotion_success:
  assumes "promotion b = Inr (agent_json, x)"
  obtains r c ec where "b = Doc (JObj r)" and "map_of r ''config'' = Some (JObj c)"
    and "map_of c ''executionConfig'' = Some (JObj ec)"
    and "x = JObj (dict_set ''canaryMode'' (JBool False) (dict_set ''mode'' (JStr ''live'') ec))"
    and "agent_json = JObj (dict_set ''config'' (JObj (dict_set ''executionConfig'' x c)) r)"
proof -
  from assms obtain reg where b: "b = Doc reg"
    by (cases b) (simp_all add: promotion_def and_then_def unhandled_def)
  from assms b obtain r where r: "reg = JObj r"
    by (cases reg)
      (simp_all add: promotion_def and_then_def unhandled_def lacks_exec_config_def
        split: if_splits)
  from assms b r obtain cv where cv: "map_of r ''config'' = Some cv"
    by (cases "map_of r ''config''")
      (simp_all add: promotion_def and_then_def unhandled_def lacks_exec_config_def dict_has_def)
  from assms b r cv obtain c where c: "cv = JObj c"
    by (cases cv)
      (simp_all add: promotion_def and_then_def unhandled_def lacks_exec_config_def dict_has_def
        split: if_splits)
  from assms b r cv c obtain ev where ev: "map_of c ''executionConfig'' = Some ev"
    by (cases "map_of c ''executionConfig''")
      (simp_all add: promotion_def and_then_def unhandled_def lacks_exec_config_def dict_has_def)
  from assms b r cv c ev obtain ec where ec: "ev = JObj ec"
    by (cases ev)
      (simp_all add: promotion_def and_then_def unhandled_def lacks_exec_config_def dict_has_def
        signals_canary_def)
  obtain flag where flag: "signals_canary (JObj ec) = Inr flag"
    by (cases "signals_canary (JObj ec)")
      (auto simp: signals_canary_def and_then_def split: if_splits)
  from assms b r cv c ev ec flag
  have "x = JObj (dict_set ''canaryMode'' (JBool False) (dict_set ''mode'' (JStr ''live'') ec))
      \<and> agent_json = JObj (dict_set ''config'' (JObj (dict_set ''executionConfig'' x c)) r)"
    by (auto simp: promotion_dicts split: if_splits)
  with b r cv c ev ec show ?thesis
    using that by simp
qed

lemma promote_canary_stored:
  "redis_get w (reg_key a) = Some b \<Longrightarrow> blob_truthy b \<Longrightarrow>
   promote_canary w t1 t2 a =
     (case promotion b of
        Inl err \<Rightarrow> (Inl err, w)
      | Inr (agent_json, exec_config) \<Rightarrow>
          (Inr \<lparr>success = True, message = ''Agent '' @ a @ '' promoted from canary to live''\<rparr>,
           broadcast_websocket_message
             (redis_publish
                (publish_agent_event (redis_set w (reg_key a) (Doc agent_json)) t1
                   ''canary_promoted'' a [(''newMode'', JStr ''live'')])
                (''agent:'' @ a @ '':inject_config'') (Doc (JObj [(''executionConfig'', exec_config)])))
             (status_changed a ''running'' t2)))"
  by (simp add: promote_canary_def Let_def split: sum.splits prod.splits)

lemma promote_canary_success:
  assumes "fst (promote_canary w t1 t2 a) = Inr resp"
  obtains b agent_json x where "redis_get w (reg_key a) = Some b"
    and "promotion b = Inr (agent_json, x)"
    and "redis_get (snd (promote_canary w t1 t2 a)) (reg_key a) = Some (Doc agent_json)"
    and "published (snd (promote_canary w t1 t2 a)) =
           published w @
           [(''agent_events'',
             Doc (JObj [(''type'', JStr ''canary_promoted''), (''agentId'', JStr a),
                        (''timestamp'', JInt t1), (''newMode'', JStr ''live'')])),
            (''agent:'' @ a @ '':inject_config'', Doc (JObj [(''executionConfig'', x)]))]"
    and "active_connections (snd (promote_canary w t1 t2 a))
           = delivered (status_changed a ''running'' t2) (active_connections w)"
proof -
  from assms obtain b where b: "redis_get w (reg_key a) = Some b"
    by (cases "redis_get w (reg_key a)") (simp_all add: promote_canary_def)
  from assms b have t: "blob_truthy b"
    by (auto simp: promote_canary_def split: if_splits)
  from assms obtain agent_json x where p: "promotion b = Inr (agent_json, x)"
    by (cases "promotion b") (auto simp: promote_canary_stored [OF b t])
  show ?thesis
    using that [OF b p]
    by (simp add: promote_canary_stored [OF b t] p redis_get_set published_event dict_update_def)
qed

text \<open>
  Claim C3, for registrations that have the shape of the data model. On a store whose
  registration of the agent, if any, is a document whose \<^verbatim>\<open>config\<close> and \<^verbatim>\<open>executionConfig\<close>,
  when present, are documents and whose \<^verbatim>\<open>canaryMode\<close>, when present, is a boolean,
  \<^verbatim>\<open>promoteCanary\<close> answers "Agent not found" exactly when no registration is
  stored, "Agent does not have execution configuration" exactly when the stored
  registration has no \<^verbatim>\<open>executionConfig\<close> in its config, and "Agent is not in canary mode"
  exactly when the \<^verbatim>\<open>executionConfig\<close> has neither \<^verbatim>\<open>mode == "canary"\<close> nor
  \<^verbatim>\<open>canaryMode == true\<close>. Whenever the call succeeds, on any store, the registration
  stored afterwards has \<^verbatim>\<open>executionConfig.mode == "live"\<close> and
  \<^verbatim>\<open>executionConfig.canaryMode == false\<close>.
\<close>

theorem promote_canary_outcomes:
  "(registration_conforms w a \<longrightarrow>
      (fst (promote_canary w t1 t2 a) = Inl (HTTPException 404 ''Agent not found'')
         \<longleftrightarrow> redis_get w (reg_key a) = None)
    \<and> (fst (promote_canary w t1 t2 a)
           = Inl (HTTPException 400 ''Agent does not have execution configuration'')
         \<longleftrightarrow> (\<exists>reg. registration_of w a = Some reg \<and> exec_config_of reg = None))
    \<and> (fst (promote_canary w t1 t2 a) = Inl (HTTPException 400 ''Agent is not in canary mode'')
         \<longleftrightarrow> (\<exists>reg ec. registration_of w a = Some reg \<and> exec_config_of reg = Some (JObj ec)
                        \<and> \<not> in_canary ec)))
   \<and> (\<forall>resp. fst (promote_canary w t1 t2 a) = Inr resp \<longrightarrow>
        (\<exists>reg ec. registration_of (snd (promote_canary w t1 t2 a)) a = Some reg
                 \<and> exec_config_of reg = Some (JObj ec)
                 \<and> map_of ec ''mode'' = Some (JStr ''live'')
                 \<and> map_of ec ''canaryMode'' = Some (JBool False)))"
proof (intro conjI impI allI)
  fix resp
  assume "fst (promote_canary w t1 t2 a) = Inr resp"
  then obtain b agent_json x where p: "promotion b = Inr (agent_json, x)"
    and stored: "redis_get (snd (promote_canary w t1 t2 a)) (reg_key a) = Some (Doc agent_json)"
    by (rule promote_canary_success)
  from p obtain r c ec where
    "x = JObj (dict_set ''canaryMode'' (JBool False) (dict_set ''mode'' (JStr ''live'') ec))"
    "agent_json = JObj (dict_set ''config'' (JObj (dict_set ''executionConfig'' x c)) r)"
    by (rule promotion_success)
  with stored show "\<exists>reg ec. registration_of (snd (promote_canary w t1 t2 a)) a = Some reg
                 \<and> exec_config_of reg = Some (JObj ec)
                 \<and> map_of ec ''mode'' = Some (JStr ''live'')
                 \<and> map_of ec ''canaryMode'' = Some (JBool False)"
    by (simp add: registration_of_def exec_config_of_def)
next
  assume conf: "registration_conforms w a"
  show "fst (promote_canary w t1 t2 a) = Inl (HTTPException 404 ''Agent not found'')
         \<longleftrightarrow> redis_get w (reg_key a) = None"
  proof (cases "redis_get w (reg_key a)")
    case None
    then show ?thesis by (simp add: promote_canary_def)
  next
    case (Some b)
    with conf obtain reg where b: "b = Doc reg" and reg: "conforms reg"
      by (cases b) (simp_all add: registration_conforms_def)
    have t: "blob_truthy b" by (simp add: b)
    show ?thesis
    proof (cases "exec_config_of reg")
      case None
      then show ?thesis
        using Some by (simp add: promote_canary_stored [OF Some t] b promotion_no_exec_config [OF reg])
    next
      case (Some x)
      from reg Some obtain r c ec where "reg = JObj r" "map_of r ''config'' = Some (JObj c)"
        "map_of c ''executionConfig'' = Some (JObj ec)" "signals_canary (JObj ec) = Inr (in_canary ec)"
        by (rule promotion_exec_config)
      then show ?thesis
        using \<open>redis_get w (reg_key a) = Some b\<close>
        by (simp add: promote_canary_stored [OF \<open>redis_get w (reg_key a) = Some b\<close> t] b promotion_dicts)
    qed
  qed
next
  assume conf: "registration_conforms w a"
  show "fst (promote_canary w t1 t2 a)
           = Inl (HTTPException 400 ''Agent does not have execution configuration'')
         \<longleftrightarrow> (\<exists>reg. registration_of w a = Some reg \<and> exec_config_of reg = None)"
  proof (cases "redis_get w (reg_key a)")
    case None
    then show ?thesis by (simp add: promote_canary_def registration_of_def)
  next
    case (Some b)
    with conf obtain reg where b: "b = Doc reg" and reg: "conforms reg"
      by (cases b) (simp_all add: registration_conforms_def)
    have t: "blob_truthy b" by (simp add: b)
    have of_reg: "registration_of w a = Some reg"
      using Some b by (simp add: registration_of_def)
    show ?thesis
    proof (cases "exec_config_of reg")
      case None
      then show ?thesis
        by (simp add: promote_canary_stored [OF Some t] b promotion_no_exec_config [OF reg] of_reg)
    next
      case (Some x)
      from reg Some obtain r c ec where "reg = JObj r" "map_of r ''config'' = Some (JObj c)"
        "map_of c ''executionConfig'' = Some (JObj ec)" "signals_canary (JObj ec) = Inr (in_canary ec)"
        by (rule promotion_exec_config)
      then show ?thesis
        using Some
        by (simp add: promote_canary_stored [OF \<open>redis_get w (reg_key a) = Some b\<close> t] b
            promotion_dicts of_reg)
    qed
  qed
next
  assume conf: "registration_conforms w a"
  show "fst (promote_canary w t1 t2 a) = Inl (HTTPException 400 ''Agent is not in canary mode'')
         \<longleftrightarrow> (\<exists>reg ec. registration_of w a = Some reg \<and> exec_config_of reg = Some (JObj ec)
                        \<and> \<not> in_canary ec)"
  proof (cases "redis_get w (reg_key a)")
    case None
    then show ?thesis by (simp add: promote_canary_def registration_of_def)
  next
    case (Some b)
    with conf obtain reg where b: "b = Doc reg" and reg: "conforms reg"
      by (cases b) (simp_all add: registration_conforms_def)
    have t: "blob_truthy b" by (simp add: b)
    have of_reg: "registration_of w a = Some reg"
      using Some b by (simp add: registration_of_def)
    show ?thesis
    proof (cases "exec_config_of reg")
      case None
      then show ?thesis
        by (simp add: promote_canary_stored [OF Some t] b promotion_no_exec_config [OF reg] of_reg)
    next
      case (Some x)
      from reg Some obtain r c ec where "reg = JObj r" "map_of r ''config'' = Some (JObj c)"
        "map_of c ''executionConfig'' = Some (JObj ec)" "x = JObj ec"
        "signals_canary (JObj ec) = Inr (in_canary ec)"
        by (rule promotion_exec_config)
      then show ?thesis
        using Some
        by (simp add: promote_canary_stored [OF \<open>redis_get w (reg_key a) = Some b\<close> t] b
            promotion_dicts of_reg)
    qed
  qed
qed

theorem promote_canary_outcomes_witness:
  "registration_conforms example_world ''a1''
   \<and> fst (promote_canary example_world 10 11 ''a1'')
       = Inr \<lparr>success = True, message = ''Agent a1 promoted from canary to live''\<rparr>
   \<and> redis_get example_world (reg_key ''a1'') \<noteq> None
   \<and> (\<exists>reg ec. registration_of (snd (promote_canary example_world 10 11 ''a1'')) ''a1'' = Some reg
                 \<and> exec_config_of reg = Some (JObj ec)
                 \<and> map_of ec ''mode'' = Some (JStr ''live'')
                 \<and> map_of ec ''canaryMode'' = Some (JBool False))
   \<and> \<not> (\<exists>reg. registration_of example_world ''a1'' = Some reg \<and> exec_config_of reg = None)"
proof -
  have conf: "registration_conforms example_world ''a1''"
    by (simp add: registration_conforms_def example_world_def redis_get_def reg_key_def
        canary_registration_def conforms_def)
  have ok: "fst (promote_canary example_world 10 11 ''a1'')
       = Inr \<lparr>success = True, message = ''Agent a1 promoted from canary to live''\<rparr>"
    by (simp add: promote_canary_def example_world_def redis_get_def reg_key_def
        canary_registration_def promotion_def lacks_exec_config_def signals_canary_def
        and_then_def unhandled_def dict_has_def Let_def)
  show ?thesis
    using conf ok promote_canary_outcomes [of example_world "''a1''" 10 11]
    by simp
qed

text \<open>
  Claim C3 as the specification states it, for every registration, fails on a
  registration that one \<^verbatim>\<open>injectConfig\<close> leaves. After the patch
  \<^verbatim>\<open>{"executionConfig": {"mode": "paper", "canaryMode": "false"}}\<close> the registration of \<^verbatim>\<open>a1\<close>
  has an \<^verbatim>\<open>executionConfig\<close> with neither \<^verbatim>\<open>mode == "canary"\<close> nor \<^verbatim>\<open>canaryMode == true\<close>, and
  \<^verbatim>\<open>promoteCanary\<close> succeeds instead of answering "Agent is not in canary mode": the code
  takes the truth value of \<^verbatim>\<open>canaryMode\<close>, and a text that is not empty is true. After the
  patch \<^verbatim>\<open>{"executionConfig": null}\<close> the \<^verbatim>\<open>executionConfig\<close> is present and no document, and
  \<^verbatim>\<open>promoteCanary\<close> answers with none of the three failures: \<^verbatim>\<open>None\<close> has no \<^verbatim>\<open>get\<close>, which is
  status 500.
\<close>

theorem promote_canary_text_flag_counterexample:
  "fst (inject_config example_world 10 11 ''a1'' text_flag_patch)
     = Inr \<lparr>success = True, message = ''Configuration injected into agent a1''\<rparr>
   \<and> registration_of text_flag_world ''a1''
     = Some (JObj [(''agentId'', JStr ''a1''), (''name'', JStr ''Alpha''),
                   (''config'', JObj [(''executionConfig'',
                      JObj [(''mode'', JStr ''paper''), (''canaryMode'', JStr ''false'')])])])
   \<and> exec_config_of (JObj [(''agentId'', JStr ''a1''), (''name'', JStr ''Alpha''),
                   (''config'', JObj [(''executionConfig'',
                      JObj [(''mode'', JStr ''paper''), (''canaryMode'', JStr ''false'')])])])
     = Some (JObj [(''mode'', JStr ''paper''), (''canaryMode'', JStr ''false'')])
   \<and> \<not> in_canary [(''mode'', JStr ''paper''), (''canaryMode'', JStr ''false'')]
   \<and> fst (promote_canary text_flag_world 20 21 ''a1'')
     = Inr \<lparr>success = True, message = ''Agent a1 promoted from canary to live''\<rparr>
   \<and> fst (promote_canary text_flag_world 20 21 ''a1'')
     \<noteq> Inl (HTTPException 400 ''Agent is not in canary mode'')
   \<and> fst (inject_config example_world 10 11 ''a1'' null_exec_patch)
     = Inr \<lparr>success = True, message = ''Configuration injected into agent a1''\<rparr>
   \<and> registration_of null_exec_world ''a1''
     = Some (JObj [(''agentId'', JStr ''a1''), (''name'', JStr ''Alpha''),
                   (''config'', JObj [(''executionConfig'', JNull)])])
   \<and> promote_canary null_exec_world 20 21 ''a1'' = (Inl (Unhandled AttributeError), null_exec_world)"
proof -
  have stored: "redis_get example_world (reg_key ''a1'') = Some (Doc canary_registration)"
    by (simp add: example_world_def redis_get_def reg_key_def)
  have merged: "merged_registration (Doc canary_registration) text_flag_patch
      = Inr (JObj [(''agentId'', JStr ''a1''), (''name'', JStr ''Alpha''),
                   (''config'', JObj [(''executionConfig'',
                      JObj [(''mode'', JStr ''paper''), (''canaryMode'', JStr ''false'')])])])"
    by (simp add: merged_registration_def canary_registration_def text_flag_patch_def
        and_then_def dict_has_def)
  have merged_null: "merged_registration (Doc canary_registration) null_exec_patch
      = Inr (JObj [(''agentId'', JStr ''a1''), (''name'', JStr ''Alpha''),
                   (''config'', JObj [(''executionConfig'', JNull)])])"
    by (simp add: merged_registration_def canary_registration_def null_exec_patch_def
        and_then_def dict_has_def)
  have inject: "fst (inject_config example_world 10 11 ''a1'' text_flag_patch)
      = Inr \<lparr>success = True, message = ''Configuration injected into agent a1''\<rparr>"
    by (simp add: inject_config_def stored merged Let_def)
  have inject_null: "fst (inject_config example_world 10 11 ''a1'' null_exec_patch)
      = Inr \<lparr>success = True, message = ''Configuration injected into agent a1''\<rparr>"
    by (simp add: inject_config_def stored merged_null Let_def)
  have reg: "redis_get text_flag_world (reg_key ''a1'')
      = Some (Doc (JObj [(''agentId'', JStr ''a1''), (''name'', JStr ''Alpha''),
                   (''config'', JObj [(''executionConfig'',
                      JObj [(''mode'', JStr ''paper''), (''canaryMode'', JStr ''false'')])])]))"
    by (simp add: text_flag_world_def inject_config_def stored merged Let_def redis_get_set)
  have reg_null: "redis_get null_exec_world (reg_key ''a1'')
      = Some (Doc (JObj [(''agentId'', JStr ''a1''), (''name'', JStr ''Alpha''),
                   (''config'', JObj [(''executionConfig'', JNull)])]))"
    by (simp add: null_exec_world_def inject_config_def stored merged_null Let_def redis_get_set)
  have promoted: "fst (promote_canary text_flag_world 20 21 ''a1'')
      = Inr \<lparr>success = True, message = ''Agent a1 promoted from canary to live''\<rparr>"
    by (simp add: promote_canary_def reg promotion_def lacks_exec_config_def signals_canary_def
        and_then_def unhandled_def dict_has_def Let_def)
  have failed: "promote_canary null_exec_world 20 21 ''a1''
      = (Inl (Unhandled AttributeError), null_exec_world)"
    by (simp add: promote_canary_def reg_null promotion_def lacks_exec_config_def
        signals_canary_def and_then_def unhandled_def dict_has_def Let_def)
  show ?thesis
    by (simp add: inject inject_null promoted failed registration_of_def reg reg_null
        exec_config_of_def in_canary_def)
qed

text \<open>
  Claim C6. After a successful \<^verbatim>\<open>promoteCanary\<close>, a second call on the resulting store
  answers "Agent is not in canary mode", and changes nothing.
\<close>

theorem promote_canary_twice:
  "fst (promote_canary w t1 t2 a) = Inr resp \<Longrightarrow>
   promote_canary (snd (promote_canary w t1 t2 a)) t3 t4 a
     = (Inl (HTTPException 400 ''Agent is not in canary mode''), snd (promote_canary w t1 t2 a))"
proof -
  assume "fst (promote_canary w t1 t2 a) = Inr resp"
  then obtain b agent_json x where p: "promotion b = Inr (agent_json, x)"
    and stored: "redis_get (snd (promote_canary w t1 t2 a)) (reg_key a) = Some (Doc agent_json)"
    by (rule promote_canary_success)
  from p obtain r c ec where
    x: "x = JObj (dict_set ''canaryMode'' (JBool False) (dict_set ''mode'' (JStr ''live'') ec))"
    and aj: "agent_json = JObj (dict_set ''config'' (JObj (dict_set ''executionConfig'' x c)) r)"
    by (rule promotion_success)
  define e' where "e' = dict_set ''canaryMode'' (JBool False) (dict_set ''mode'' (JStr ''live'') ec)"
  define c' where "c' = dict_set ''executionConfig'' (JObj e') c"
  define r' where "r' = dict_set ''config'' (JObj c') r"
  have config: "map_of r' ''config'' = Some (JObj c')"
    by (simp add: r'_def)
  have exec: "map_of c' ''executionConfig'' = Some (JObj e')"
    by (simp add: c'_def)
  have live: "signals_canary (JObj e') = Inr False"
    by (simp add: e'_def signals_canary_def and_then_def)
  have "agent_json = JObj r'"
    by (simp add: aj x r'_def c'_def e'_def)
  then have "promotion (Doc agent_json) = Inl (HTTPException 400 ''Agent is not in canary mode'')"
    by (simp add: promotion_dicts [OF config exec live])
  then show ?thesis
    by (simp add: promote_canary_stored [OF stored])
qed

theorem promote_canary_twice_witness:
  "fst (promote_canary example_world 10 11 ''a1'')
       = Inr \<lparr>success = True, message = ''Agent a1 promoted from canary to live''\<rparr>
   \<and> promote_canary (snd (promote_canary example_world 10 11 ''a1'')) 20 21 ''a1''
     = (Inl (HTTPException 400 ''Agent is not in canary mode''),
        snd (promote_canary example_world 10 11 ''a1''))"
proof -
  have ok: "fst (promote_canary example_world 10 11 ''a1'')
       = Inr \<lparr>success = True, message = ''Agent a1 promoted from canary to live''\<rparr>"
    by (simp add: promote_canary_def example_world_def redis_get_def reg_key_def
        canary_registration_def promotion_def lacks_exec_config_def signals_canary_def
        and_then_def unhandled_def dict_has_def Let_def)
  show ?thesis
    using ok promote_canary_twice [OF ok, of 20 21] by simp
qed

section \<open>Events and observers\<close>

lemma command_channel_not_events [simp]: "''agent:'' @ a @ suffix \<noteq> ''agent_events''"
  by simp

lemma topic_events_append:
  "published w' = published w @ ps \<Longrightarrow>
   topic_events w' channel = topic_events w channel @ map snd (filter (\<lambda>(c, payload). c = channel) ps)"
  by (simp add: topic_events_def)

lemma pause_agent_success:
  "fst (pause_agent w t1 t2 a) = Inr resp \<Longrightarrow> redis_exists w (reg_key a)"
  by (simp add: pause_agent_def split: if_splits)

lemma resume_agent_success:
  "fst (resume_agent w t1 t2 a) = Inr resp \<Longrightarrow> redis_exists w (reg_key a)"
  by (simp add: resume_agent_def split: if_splits)

lemma restart_agent_success:
  "fst (restart_agent w t1 t2 a) = Inr resp \<Longrightarrow> redis_exists w (reg_key a)"
  by (simp add: restart_agent_def split: if_splits)

lemma requested_event_announced:
  assumes "published w' = published w @
             [(''agent_events'', Doc (JObj ((''type'', JStr e) # rest))), (''agent:'' @ a @ suffix, cmd)]"
    and "e \<noteq> ''agent_status_changed''"
  shows "topic_events w' ''agent_events''
           = topic_events w ''agent_events'' @ [Doc (JObj ((''type'', JStr e) # rest))]
         \<and> status_changed_events w' = status_changed_events w"
  using assms by (simp add: status_changed_events_def topic_events_def event_type_def)

text \<open>
  Claim C4, as the code has it. A successful \<^verbatim>\<open>pause\<close>, \<^verbatim>\<open>resume\<close> or \<^verbatim>\<open>restart\<close> publishes
  exactly one event on the \<^verbatim>\<open>agent_events\<close> topic, of type \<^verbatim>\<open>pause_requested\<close>,
  \<^verbatim>\<open>resume_requested\<close> or \<^verbatim>\<open>restart_requested\<close>, and a successful \<^verbatim>\<open>promoteCanary\<close> exactly
  one, of type \<^verbatim>\<open>canary_promoted\<close>; each carries the clock reading taken for it. None of
  them publishes an \<^verbatim>\<open>agent_status_changed\<close> event on that topic: the message of that
  type, with the new status and its own clock reading, is sent once, directly, to
  every observer connection that accepts a send.
\<close>

theorem status_change_announcements:
  "(fst (pause_agent w t1 t2 a) = Inr resp \<longrightarrow>
      topic_events (snd (pause_agent w t1 t2 a)) ''agent_events''
        = topic_events w ''agent_events'' @
          [Doc (JObj [(''type'', JStr ''pause_requested''), (''agentId'', JStr a), (''timestamp'', JInt t1)])]
      \<and> status_changed_events (snd (pause_agent w t1 t2 a)) = status_changed_events w
      \<and> active_connections (snd (pause_agent w t1 t2 a))
        = delivered (status_changed a ''paused'' t2) (active_connections w))
   \<and> (fst (resume_agent w t1 t2 a) = Inr resp \<longrightarrow>
      topic_events (snd (resume_agent w t1 t2 a)) ''agent_events''
        = topic_events w ''agent_events'' @
          [Doc (JObj [(''type'', JStr ''resume_requested''), (''agentId'', JStr a), (''timestamp'', JInt t1)])]
      \<and> status_changed_events (snd (resume_agent w t1 t2 a)) = status_changed_events w
      \<and> active_connections (snd (resume_agent w t1 t2 a))
        = delivered (status_changed a ''running'' t2) (active_connections w))
   \<and> (fst (restart_agent w t1 t2 a) = Inr resp \<longrightarrow>
      topic_events (snd (restart_agent w t1 t2 a)) ''agent_events''
        = topic_events w ''agent_events'' @
          [Doc (JObj [(''type'', JStr ''restart_requested''), (''agentId'', JStr a), (''timestamp'', JInt t1)])]
      \<and> status_changed_events (snd (restart_agent w t1 t2 a)) = status_changed_events w
      \<and> active_connections (snd (restart_agent w t1 t2 a))
        = delivered (status_changed a ''initializing'' t2) (active_connections w))
   \<and> (fst (promote_canary w t1 t2 a) = Inr resp \<longrightarrow>
      topic_events (snd (promote_canary w t1 t2 a)) ''agent_events''
        = topic_events w ''agent_events'' @
          [Doc (JObj [(''type'', JStr ''canary_promoted''), (''agentId'', JStr a),
                      (''timestamp'', JInt t1), (''newMode'', JStr ''live'')])]
      \<and> status_changed_events (snd (promote_canary w t1 t2 a)) = status_changed_events w
      \<and> active_connections (snd (promote_canary w t1 t2 a))
        = delivered (status_changed a ''running'' t2) (active_connections w))"
proof (intro conjI impI)
  assume "fst (pause_agent w t1 t2 a) = Inr resp"
  then have found: "redis_exists w (reg_key a)"
    by (rule pause_agent_success)
  have "published (snd (pause_agent w t1 t2 a)) = published w @
      [(''agent_events'', Doc (JObj ((''type'', JStr ''pause_requested'') #
          [(''agentId'', JStr a), (''timestamp'', JInt t1)]))),
       (''agent:'' @ a @ '':pause'', Text [])]"
    by (simp add: pause_agent_found [OF found] published_event)
  then have "topic_events (snd (pause_agent w t1 t2 a)) ''agent_events''
        = topic_events w ''agent_events'' @
          [Doc (JObj ((''type'', JStr ''pause_requested'') # [(''agentId'', JStr a), (''timestamp'', JInt t1)]))]
      \<and> status_changed_events (snd (pause_agent w t1 t2 a)) = status_changed_events w"
    by (rule requested_event_announced) simp
  then show "topic_events (snd (pause_agent w t1 t2 a)) ''agent_events''
        = topic_events w ''agent_events'' @
          [Doc (JObj [(''type'', JStr ''pause_requested''), (''agentId'', JStr a), (''timestamp'', JInt t1)])]"
    and "status_changed_events (snd (pause_agent w t1 t2 a)) = status_changed_events w"
    by simp_all
  show "active_connections (snd (pause_agent w t1 t2 a))
        = delivered (status_changed a ''paused'' t2) (active_connections w)"
    by (simp add: pause_agent_found [OF found])
next
  assume "fst (resume_agent w t1 t2 a) = Inr resp"
  then have found: "redis_exists w (reg_key a)"
    by (rule resume_agent_success)
  have "published (snd (resume_agent w t1 t2 a)) = published w @
      [(''agent_events'', Doc (JObj ((''type'', JStr ''resume_requested'') #
          [(''agentId'', JStr a), (''timestamp'', JInt t1)]))),
       (''agent:'' @ a @ '':resume'', Text [])]"
    by (simp add: resume_agent_found [OF found] published_event)
  then have "topic_events (snd (resume_agent w t1 t2 a)) ''agent_events''
        = topic_events w ''agent_events'' @
          [Doc (JObj ((''type'', JStr ''resume_requested'') # [(''agentId'', JStr a), (''timestamp'', JInt t1)]))]
      \<and> status_changed_events (snd (resume_agent w t1 t2 a)) = status_changed_events w"
    by (rule requested_event_announced) simp
  then show "topic_events (snd (resume_agent w t1 t2 a)) ''agent_events''
        = topic_events w ''agent_events'' @
          [Doc (JObj [(''type'', JStr ''resume_requested''), (''agentId'', JStr a), (''timestamp'', JInt t1)])]"
    and "status_changed_events (snd (resume_agent w t1 t2 a)) = status_changed_events w"
    by simp_all
  show "active_connections (snd (resume_agent w t1 t2 a))
        = delivered (status_changed a ''running'' t2) (active_connections w)"
    by (simp add: resume_agent_found [OF found])
next
  assume "fst (restart_agent w t1 t2 a) = Inr resp"
  then have found: "redis_exists w (reg_key a)"
    by (rule restart_agent_success)
  have "published (snd (restart_agent w t1 t2 a)) = published w @
      [(''agent_events'', Doc (JObj ((''type'', JStr ''restart_requested'') #
          [(''agentId'', JStr a), (''timestamp'', JInt t1)]))),
       (''agent:'' @ a @ '':restart'', Text [])]"
    by (simp add: restart_agent_found [OF found] published_event)
  then have "topic_events (snd (restart_agent w t1 t2 a)) ''agent_events''
        = topic_events w ''agent_events'' @
          [Doc (JObj ((''type'', JStr ''restart_requested'') # [(''agentId'', JStr a), (''timestamp'', JInt t1)]))]
      \<and> status_changed_events (snd (restart_agent w t1 t2 a)) = status_changed_events w"
    by (rule requested_event_announced) simp
  then show "topic_events (snd (restart_agent w t1 t2 a)) ''agent_events''
        = topic_events w ''agent_events'' @
          [Doc (JObj [(''type'', JStr ''restart_requested''), (''agentId'', JStr a), (''timestamp'', JInt t1)])]"
    and "status_changed_events (snd (restart_agent w t1 t2 a)) = status_changed_events w"
    by simp_all
  show "active_connections (snd (restart_agent w t1 t2 a))
        = delivered (status_changed a ''initializing'' t2) (active_connections w)"
    by (simp add: restart_agent_found [OF found])
next
  assume "fst (promote_canary w t1 t2 a) = Inr resp"
  then obtain x where pub: "published (snd (promote_canary w t1 t2 a)) =
           published w @
           [(''agent_events'',
             Doc (JObj [(''type'', JStr ''canary_promoted''), (''agentId'', JStr a),
                        (''timestamp'', JInt t1), (''newMode'', JStr ''live'')])),
            (''agent:'' @ a @ '':inject_config'', Doc (JObj [(''executionConfig'', x)]))]"
    and conns: "active_connections (snd (promote_canary w t1 t2 a))
           = delivered (status_changed a ''running'' t2) (active_connections w)"
    by (rule promote_canary_success)
  from pub have "topic_events (snd (promote_canary w t1 t2 a)) ''agent_events''
        = topic_events w ''agent_events'' @
          [Doc (JObj ((''type'', JStr ''canary_promoted'') #
             [(''agentId'', JStr a), (''timestamp'', JInt t1), (''newMode'', JStr ''live'')]))]
      \<and> status_changed_events (snd (promote_canary w t1 t2 a)) = status_changed_events w"
    by (rule requested_event_announced) simp
  then show "topic_events (snd (promote_canary w t1 t2 a)) ''agent_events''
        = topic_events w ''agent_events'' @
          [Doc (JObj [(''type'', JStr ''canary_promoted''), (''agentId'', JStr a),
                      (''timestamp'', JInt t1), (''newMode'', JStr ''live'')])]"
    and "status_changed_events (snd (promote_canary w t1 t2 a)) = status_changed_events w"
    by simp_all
  from conns show "active_connections (snd (promote_canary w t1 t2 a))
        = delivered (status_changed a ''running'' t2) (active_connections w)" .
qed

lemma example_world_exists: "redis_exists example_world (reg_key ''a1'')"
  by (simp add: example_world_def redis_exists_def dict_has_def reg_key_def)

lemma example_world_promoted:
  "fst (promote_canary example_world 10 11 ''a1'')
     = Inr \<lparr>success = True, message = ''Agent a1 promoted from canary to live''\<rparr>"
  by (simp add: promote_canary_def example_world_def redis_get_def reg_key_def
      canary_registration_def promotion_def lacks_exec_config_def signals_canary_def
      and_then_def unhandled_def dict_has_def Let_def)

theorem status_change_announcements_witness:
  "fst (pause_agent example_world 10 11 ''a1'') = Inr \<lparr>success = True, message = ''Agent a1 paused''\<rparr>
   \<and> fst (promote_canary example_world 10 11 ''a1'')
       = Inr \<lparr>success = True, message = ''Agent a1 promoted from canary to live''\<rparr>
   \<and> topic_events (snd (pause_agent example_world 10 11 ''a1'')) ''agent_events''
       = [Doc (JObj [(''type'', JStr ''pause_requested''), (''agentId'', JStr ''a1''), (''timestamp'', JInt 10)])]
   \<and> topic_events (snd (promote_canary example_world 10 11 ''a1'')) ''agent_events''
       = [Doc (JObj [(''type'', JStr ''canary_promoted''), (''agentId'', JStr ''a1''),
                     (''timestamp'', JInt 10), (''newMode'', JStr ''live'')])]
   \<and> status_changed_events (snd (pause_agent example_world 10 11 ''a1'')) = []
   \<and> active_connections (snd (pause_agent example_world 10 11 ''a1''))
       = [(''c1'', \<lparr>accepts = True, sent = [status_changed ''a1'' ''paused'' 11]\<rparr>)]"
proof -
  have p: "fst (pause_agent example_world 10 11 ''a1'') = Inr \<lparr>success = True, message = ''Agent a1 paused''\<rparr>"
    by (simp add: pause_agent_found [OF example_world_exists])
  have e: "topic_events example_world ''agent_events'' = []" "status_changed_events example_world = []"
    "active_connections example_world
       = [(''c1'', \<lparr>accepts = True, sent = []\<rparr>), (''c2'', \<lparr>accepts = False, sent = []\<rparr>)]"
    by (simp_all add: topic_events_def status_changed_events_def example_world_def)
  show ?thesis
    using p example_world_promoted
      status_change_announcements [of example_world 10 11 "''a1''" "\<lparr>success = True, message = ''Agent a1 paused''\<rparr>"]
      status_change_announcements [of example_world 10 11 "''a1''"
        "\<lparr>success = True, message = ''Agent a1 promoted from canary to live''\<rparr>"]
    by (simp add: e delivered_def)
qed

text \<open>
  Claim C4 as the specification states it fails: after a successful \<^verbatim>\<open>pause\<close> the
  \<^verbatim>\<open>agent_events\<close> topic holds one new event, \<^verbatim>\<open>pause_requested\<close>, and no
  \<^verbatim>\<open>agent_status_changed\<close> event.
\<close>

theorem status_changed_on_topic_counterexample:
  "fst (pause_agent example_world 10 11 ''a1'') = Inr \<lparr>success = True, message = ''Agent a1 paused''\<rparr>
   \<and> topic_events (snd (pause_agent example_world 10 11 ''a1'')) ''agent_events''
       = [Doc (JObj [(''type'', JStr ''pause_requested''), (''agentId'', JStr ''a1''), (''timestamp'', JInt 10)])]
   \<and> length (status_changed_events (snd (pause_agent example_world 10 11 ''a1'')))
       \<noteq> length (status_changed_events example_world) + 1"
  by (simp add: pause_agent_found [OF example_world_exists] published_event
      status_changed_events_def topic_events_def event_type_def)
    (simp add: example_world_def)

section \<open>The auth gate\<close>

lemma verify_token_malformed:
  "length (py_split h) \<noteq> 2 \<Longrightarrow>
   verify_token jwt_decode h = Inl (HTTPException 401 ''Invalid authorization header'')"
  by (auto simp: verify_token_def split: list.splits)

text \<open>
  Claim C5, at requests that present no valid token. \<^verbatim>\<open>verify_token\<close> answers 401 to the
  header \<^verbatim>\<open>garbage\<close>, whatever \<^verbatim>\<open>jwt.decode\<close> does, yet the \<^verbatim>\<open>pause\<close> request that carries this
  header succeeds, writes the state \<^verbatim>\<open>paused\<close> to the store and publishes the event and
  the command. The same request without any header does the same, and so do \<^verbatim>\<open>resume\<close>,
  \<^verbatim>\<open>restart\<close>, \<^verbatim>\<open>injectConfig\<close> and \<^verbatim>\<open>promoteCanary\<close>: no route calls \<^verbatim>\<open>verify_token\<close>.
\<close>

theorem unauthorized_calls_take_effect:
  "verify_token jwt_decode ''garbage'' = Inl (HTTPException 401 ''Invalid authorization header'')
   \<and> control_api example_world 10 11
        \<lparr>authorization = Some ''garbage'', operation = Pause, body_agentId = ''a1''\<rparr>
     = control_api example_world 10 11
        \<lparr>authorization = None, operation = Pause, body_agentId = ''a1''\<rparr>
   \<and> fst (control_api example_world 10 11 \<lparr>authorization = None, operation = Pause, body_agentId = ''a1''\<rparr>)
     = Inr \<lparr>success = True, message = ''Agent a1 paused''\<rparr>
   \<and> store (snd (control_api example_world 10 11
        \<lparr>authorization = None, operation = Pause, body_agentId = ''a1''\<rparr>))
     = [(''agent:a1:registration'', Doc canary_registration), (''agent:a1:state'', Text ''paused'')]
   \<and> store example_world
     = [(''agent:a1:registration'', Doc canary_registration), (''agent:a1:state'', Text ''running'')]
   \<and> published example_world = []
   \<and> published (snd (control_api example_world 10 11
        \<lparr>authorization = None, operation = Pause, body_agentId = ''a1''\<rparr>))
     = [(''agent_events'',
         Doc (JObj [(''type'', JStr ''pause_requested''), (''agentId'', JStr ''a1''), (''timestamp'', JInt 10)])),
        (''agent:a1:pause'', Text [])]
   \<and> fst (control_api example_world 10 11
        \<lparr>authorization = None, operation = Resume, body_agentId = ''a1''\<rparr>)
     = Inr \<lparr>success = True, message = ''Agent a1 resumed''\<rparr>
   \<and> fst (control_api example_world 10 11
        \<lparr>authorization = None, operation = Restart, body_agentId = ''a1''\<rparr>)
     = Inr \<lparr>success = True, message = ''Agent a1 restarting''\<rparr>
   \<and> fst (control_api example_world 10 11
        \<lparr>authorization = None, operation = InjectConfig [(''x'', JInt 1)], body_agentId = ''a1''\<rparr>)
     = Inr \<lparr>success = True, message = ''Configuration injected into agent a1''\<rparr>
   \<and> fst (control_api example_world 10 11
        \<lparr>authorization = None, operation = PromoteCanary, body_agentId = ''a1''\<rparr>)
     = Inr \<lparr>success = True, message = ''Agent a1 promoted from canary to live''\<rparr>"
proof -
  have gate: "verify_token jwt_decode ''garbage''
      = Inl (HTTPException 401 ''Invalid authorization header'')"
    by (rule verify_token_malformed) (simp add: py_split_def is_space_def)
  have inject: "fst (inject_config example_world 10 11 ''a1'' [(''x'', JInt 1)])
     = Inr \<lparr>success = True, message = ''Configuration injected into agent a1''\<rparr>"
    by (simp add: inject_config_def example_world_def redis_get_def reg_key_def
        canary_registration_def merged_registration_def and_then_def dict_has_def Let_def)
  have rest: "control_api example_world 10 11
        \<lparr>authorization = Some ''garbage'', operation = Pause, body_agentId = ''a1''\<rparr>
     = control_api example_world 10 11
        \<lparr>authorization = None, operation = Pause, body_agentId = ''a1''\<rparr>
   \<and> fst (control_api example_world 10 11 \<lparr>authorization = None, operation = Pause, body_agentId = ''a1''\<rparr>)
     = Inr \<lparr>success = True, message = ''Agent a1 paused''\<rparr>
   \<and> store (snd (control_api example_world 10 11
        \<lparr>authorization = None, operation = Pause, body_agentId = ''a1''\<rparr>))
     = [(''agent:a1:registration'', Doc canary_registration), (''agent:a1:state'', Text ''paused'')]
   \<and> store example_world
     = [(''agent:a1:registration'', Doc canary_registration), (''agent:a1:state'', Text ''running'')]
   \<and> published example_world = []
   \<and> published (snd (control_api example_world 10 11
        \<lparr>authorization = None, operation = Pause, body_agentId = ''a1''\<rparr>))
     = [(''agent_events'',
         Doc (JObj [(''type'', JStr ''pause_requested''), (''agentId'', JStr ''a1''), (''timestamp'', JInt 10)])),
        (''agent:a1:pause'', Text [])]
   \<and> fst (control_api example_world 10 11
        \<lparr>authorization = None, operation = Resume, body_agentId = ''a1''\<rparr>)
     = Inr \<lparr>success = True, message = ''Agent a1 resumed''\<rparr>
   \<and> fst (control_api example_world 10 11
        \<lparr>authorization = None, operation = Restart, body_agentId = ''a1''\<rparr>)
     = Inr \<lparr>success = True, message = ''Agent a1 restarting''\<rparr>
   \<and> fst (control_api example_world 10 11
        \<lparr>authorization = None, operation = InjectConfig [(''x'', JInt 1)], body_agentId = ''a1''\<rparr>)
     = Inr \<lparr>success = True, message = ''Configuration injected into agent a1''\<rparr>
   \<and> fst (control_api example_world 10 11
        \<lparr>authorization = None, operation = PromoteCanary, body_agentId = ''a1''\<rparr>)
     = Inr \<lparr>success = True, message = ''Agent a1 promoted from canary to live''\<rparr>"
    by (simp add: control_api_def pause_agent_found [OF example_world_exists]
        resume_agent_found [OF example_world_exists] restart_agent_found [OF example_world_exists]
        example_world_promoted inject published_event)
      (simp add: example_world_def state_key_def)
  from gate rest show ?thesis
    by (rule conjI)
qed

section \<open>Listing the agents\<close>

lemma and_then_Inr: "and_then m f = Inr y \<longleftrightarrow> (\<exists>x. m = Inr x \<and> f x = Inr y)"
  by (cases m) (simp_all add: and_then_def)

text \<open>
  What \<^verbatim>\<open>list_agents\<close> has found when it builds a panel for a registration: every step
  of the loop body has returned, the canary check decides the status first and the
  stored state only when the check is negative, the actions follow the status, and the
  constructor has accepted the id, the name, the PnL and the tags.
\<close>

lemma panel_of_success:
  assumes "panel_of v w agent_json = Inr p"
  obtains id_value state c metrics pnl tags_v name_v where
    "py_get agent_json ''agentId'' (JStr ''unknown'') = Inr id_value"
    and "str_field v id_value = Inr (agentId p)"
    and "raw_state (redis_get w (state_key (agentId p))) = Inr state"
    and "is_canary_of agent_json = Inr c"
    and "status p = (if c then ''canary'' else status_of_state state)"
    and "actions p = actions_of_status (status p)"
    and "metrics_of (redis_get w (metrics_key (agentId p))) = Inr metrics"
    and "last_signal_of (redis_get w (last_signal_key (agentId p))) = Inr (lastSignal p)"
    and "pnl_24h_of metrics = Inr pnl"
    and "float_field v pnl = Inr (pnl24h p)"
    and "tags_of agent_json c (status p) = Inr tags_v"
    and "str_list_field v tags_v = Inr (tags p)"
    and "py_get agent_json ''name'' JNull = Inr name_v"
    and "optional_str_field v name_v = Inr (name p)"
proof -
  from assms obtain id_value agent_id state c metrics last_signal_time pnl tags_v name_v
    name_s pnl_f tags_s where
    steps: "py_get agent_json ''agentId'' (JStr ''unknown'') = Inr id_value"
      "str_field v id_value = Inr agent_id"
      "raw_state (redis_get w (state_key agent_id)) = Inr state"
      "is_canary_of agent_json = Inr c"
      "metrics_of (redis_get w (metrics_key agent_id)) = Inr metrics"
      "last_signal_of (redis_get w (last_signal_key agent_id)) = Inr last_signal_time"
      "pnl_24h_of metrics = Inr pnl"
      "tags_of agent_json c (if c then ''canary'' else status_of_state state) = Inr tags_v"
      "py_get agent_json ''name'' JNull = Inr name_v"
      "optional_str_field v name_v = Inr name_s"
      "float_field v pnl = Inr pnl_f"
      "str_list_field v tags_v = Inr tags_s"
    and p: "p = \<lparr>agentId = agent_id, name = name_s,
                 status = (if c then ''canary'' else status_of_state state),
                 lastSignal = last_signal_time, pnl24h = pnl_f,
                 actions = actions_of_status (if c then ''canary'' else status_of_state state),
                 tags = tags_s\<rparr>"
    unfolding panel_of_def Let_def and_then_Inr by blast
  show ?thesis
    using steps by (intro that [of id_value state c metrics pnl tags_v name_v]) (simp_all add: p)
qed


text \<open>
  Two registrations the loop skips: one whose \<^verbatim>\<open>agentType\<close> is \<^verbatim>\<open>null\<close>, a tag that no
  version of the validation accepts in a \<^verbatim>\<open>List[str]\<close>, and one whose state is the single
  byte 255, which is not UTF-8.
\<close>

lemma null_in_str_list: "JNull \<in> set xs \<Longrightarrow> str_list_field v xs \<noteq> Inr ss"
  by (induction xs arbitrary: ss) (auto split: sum.splits)

lemma null_tag_skipped:
  "list_agents v \<lparr>store = [(''agent:x:registration'', Doc (JObj [(''agentType'', JNull)]))],
                   published = [], active_connections = []\<rparr> = []"
proof -
  have tags: "tags_of (JObj [(''agentType'', JNull)]) c s = Inr tags_v \<Longrightarrow> JNull \<in> set tags_v"
    for c s tags_v
    by (auto simp: tags_of_def and_then_def dict_has_def Let_def)
  have never: "panel_of v w (JObj [(''agentType'', JNull)]) \<noteq> Inr p" for w p
  proof
    assume "panel_of v w (JObj [(''agentType'', JNull)]) = Inr p"
    then obtain c tags_v where
      built: "tags_of (JObj [(''agentType'', JNull)]) c (status p) = Inr tags_v"
      and accepted: "str_list_field v tags_v = Inr (tags p)"
      by (rule panel_of_success)
    from built have "JNull \<in> set tags_v"
      by (rule tags)
    then have "str_list_field v tags_v \<noteq> Inr (tags p)"
      by (rule null_in_str_list)
    with accepted show False
      by simp
  qed
  show ?thesis
    by (simp add: list_agents_def registration_keys_def is_registration_key_def
        panel_of_key_def redis_get_def and_then_def never split: sum.splits)
qed

lemma undecodable_state_skipped:
  "list_agents v \<lparr>store = [(''agent:a1:registration'', Doc canary_registration),
                            (''agent:a1:state'', Text [CHR 0xFF])],
                   published = [], active_connections = []\<rparr> = []"
  by (simp add: list_agents_def registration_keys_def is_registration_key_def
      panel_of_key_def redis_get_def and_then_def panel_of_def canary_registration_def
      state_key_def)

text \<open>
  Claim C1, at a canary agent that has been paused. \<^verbatim>\<open>pause_agent\<close> succeeds on the
  canary agent \<^verbatim>\<open>a1\<close> and stores the raw state \<^verbatim>\<open>paused\<close>; \<^verbatim>\<open>list_agents\<close> then reports the
  agent with status \<^verbatim>\<open>canary\<close> and the actions \<^verbatim>\<open>promote\<close>, \<^verbatim>\<open>pause\<close>, \<^verbatim>\<open>restart\<close>, where the
  claim has status \<^verbatim>\<open>paused\<close> and the actions \<^verbatim>\<open>resume\<close>, \<^verbatim>\<open>restart\<close>. Every field of the panel
  has its declared type, so the outcome is the same with every version of the
  validation.
\<close>

theorem paused_canary_listed_as_canary:
  "fst (pause_agent example_world 10 11 ''a1'') = Inr \<lparr>success = True, message = ''Agent a1 paused''\<rparr>
   \<and> raw_state (redis_get (snd (pause_agent example_world 10 11 ''a1'')) (state_key ''a1''))
       = Inr (Some ''paused'')
   \<and> list_agents v (snd (pause_agent example_world 10 11 ''a1''))
       = [\<lparr>agentId = ''a1'', name = Some ''Alpha'', status = ''canary'', lastSignal = 0,
           pnl24h = 0, actions = [''promote'', ''pause'', ''restart''],
           tags = [''canary'']\<rparr>]"
proof -
  have w: "snd (pause_agent example_world 10 11 ''a1'')
      = \<lparr>store = [(''agent:a1:registration'', Doc canary_registration),
                  (''agent:a1:state'', Text ''paused'')],
         published = [(''agent_events'',
                       Doc (JObj [(''type'', JStr ''pause_requested''), (''agentId'', JStr ''a1''),
                                  (''timestamp'', JInt 10)])),
                      (''agent:a1:pause'', Text [])],
         active_connections = [(''c1'', \<lparr>accepts = True, sent = [status_changed ''a1'' ''paused'' 11]\<rparr>)]\<rparr>"
    by (simp add: pause_agent_found [OF example_world_exists])
      (simp add: example_world_def publish_agent_event_def redis_publish_def redis_set_def
        broadcast_websocket_message_def state_key_def)
  have keys: "registration_keys (snd (pause_agent example_world 10 11 ''a1'')) = [''agent:a1:registration'']"
    unfolding w by (simp add: registration_keys_def is_registration_key_def)
  have state: "raw_state (redis_get (snd (pause_agent example_world 10 11 ''a1'')) (state_key ''a1''))
      = Inr (Some ''paused'')"
    unfolding w by (simp add: redis_get_def state_key_def)
  have canary: "is_canary_of canary_registration = Inr True"
    by (simp add: is_canary_of_def canary_registration_def signals_canary_def and_then_def
        dict_has_def)
  have tags: "tags_of canary_registration True ''canary'' = Inr [JStr ''canary'']"
    by (simp add: tags_of_def canary_registration_def and_then_def dict_has_def)
  have fields: "py_get canary_registration ''agentId'' (JStr ''unknown'') = Inr (JStr ''a1'')"
    "py_get canary_registration ''name'' JNull = Inr (JStr ''Alpha'')"
    by (simp_all add: canary_registration_def)
  have docs: "metrics_of (redis_get (snd (pause_agent example_world 10 11 ''a1'')) (metrics_key ''a1''))
      = Inr (JObj [])"
    "last_signal_of (redis_get (snd (pause_agent example_world 10 11 ''a1'')) (last_signal_key ''a1''))
      = Inr 0"
    unfolding w
    by (simp_all add: metrics_of_def last_signal_of_def redis_get_def metrics_key_def
        last_signal_key_def)
  have pnl: "pnl_24h_of (JObj []) = Inr (JFloat 0)"
    by (simp add: pnl_24h_of_def and_then_def dict_has_def)
  have panel: "panel_of v (snd (pause_agent example_world 10 11 ''a1'')) canary_registration
      = Inr \<lparr>agentId = ''a1'', name = Some ''Alpha'', status = ''canary'', lastSignal = 0,
             pnl24h = 0, actions = [''promote'', ''pause'', ''restart''],
             tags = [''canary'']\<rparr>"
    unfolding panel_of_def fields
    by (simp add: and_then_def Let_def state canary docs pnl tags actions_of_status_def)
  have stored: "redis_get (snd (pause_agent example_world 10 11 ''a1'')) ''agent:a1:registration''
      = Some (Doc canary_registration)"
    unfolding w by (simp add: redis_get_def)
  have listed: "list_agents v (snd (pause_agent example_world 10 11 ''a1''))
       = [\<lparr>agentId = ''a1'', name = Some ''Alpha'', status = ''canary'', lastSignal = 0,
           pnl24h = 0, actions = [''promote'', ''pause'', ''restart''],
           tags = [''canary'']\<rparr>]"
    by (simp add: list_agents_def keys panel_of_key_def stored and_then_def panel)
  have paused: "fst (pause_agent example_world 10 11 ''a1'')
      = Inr \<lparr>success = True, message = ''Agent a1 paused''\<rparr>"
    by (simp add: pause_agent_found [OF example_world_exists])
  from paused state listed show ?thesis
    by (intro conjI)
qed

section \<open>A registration without an agent id\<close>








end
